theory Spec2Isabelle
  imports Complex_Main "HOL-Library.Word"
begin

section \<open>JavaScript numbers\<close>

text \<open>
  A JavaScript \<open>number\<close> is an IEEE double. It is modelled as a real number or one of
  the three special values the operations of the audio pipeline can produce: \<open>NaN\<close>,
  \<open>+Infinity\<close> and \<open>-Infinity\<close>. Arithmetic on finite values is exact here (rounding
  and overflow to infinity are not modelled), and the zero \<open>-0\<close> is identified with
  \<open>+0\<close>: the zero denominators of the modelled code are lengths, counters and floors
  of non-negative numbers, hence \<open>+0\<close>, and a configuration that holds \<open>-0\<close> itself
  is outside this model. The special values follow ECMAScript: \<open>0 / 0\<close>,
  \<open>Infinity - Infinity\<close> and \<open>0 * Infinity\<close> are \<open>NaN\<close>, every comparison with
  \<open>NaN\<close> is false, and \<open>Math.max()\<close> of no argument is \<open>-Infinity\<close>.
\<close>

datatype jsnum = NaN | NInf | Fin real | PInf

fun jneg :: "jsnum \<Rightarrow> jsnum" where
  "jneg NaN = NaN"
| "jneg NInf = PInf"
| "jneg PInf = NInf"
| "jneg (Fin a) = Fin (- a)"

fun jadd :: "jsnum \<Rightarrow> jsnum \<Rightarrow> jsnum" where
  "jadd (Fin a) (Fin b) = Fin (a + b)"
| "jadd NaN _ = NaN"
| "jadd _ NaN = NaN"
| "jadd PInf NInf = NaN"
| "jadd NInf PInf = NaN"
| "jadd PInf _ = PInf"
| "jadd _ PInf = PInf"
| "jadd NInf _ = NInf"
| "jadd _ NInf = NInf"

definition jsub :: "jsnum \<Rightarrow> jsnum \<Rightarrow> jsnum" where
  "jsub a b = jadd a (jneg b)"

text \<open>The sign of a product or quotient with an infinite operand.\<close>

definition signed_inf :: "bool \<Rightarrow> jsnum" where
  "signed_inf positive = (if positive then PInf else NInf)"

fun jmul :: "jsnum \<Rightarrow> jsnum \<Rightarrow> jsnum" where
  "jmul (Fin a) (Fin b) = Fin (a * b)"
| "jmul NaN _ = NaN"
| "jmul _ NaN = NaN"
| "jmul PInf (Fin b) = (if b = 0 then NaN else signed_inf (0 < b))"
| "jmul NInf (Fin b) = (if b = 0 then NaN else signed_inf (b < 0))"
| "jmul (Fin a) PInf = (if a = 0 then NaN else signed_inf (0 < a))"
| "jmul (Fin a) NInf = (if a = 0 then NaN else signed_inf (a < 0))"
| "jmul PInf PInf = PInf"
| "jmul NInf NInf = PInf"
| "jmul PInf NInf = NInf"
| "jmul NInf PInf = NInf"

fun jdiv :: "jsnum \<Rightarrow> jsnum \<Rightarrow> jsnum" where
  "jdiv (Fin a) (Fin b) =
     (if b = 0 then (if a = 0 then NaN else signed_inf (0 < a)) else Fin (a / b))"
| "jdiv NaN _ = NaN"
| "jdiv _ NaN = NaN"
| "jdiv (Fin a) PInf = Fin 0"
| "jdiv (Fin a) NInf = Fin 0"
| "jdiv PInf (Fin b) = signed_inf (0 \<le> b)"
| "jdiv NInf (Fin b) = signed_inf (b < 0)"
| "jdiv PInf PInf = NaN"
| "jdiv PInf NInf = NaN"
| "jdiv NInf PInf = NaN"
| "jdiv NInf NInf = NaN"

text \<open>The comparison \<open>a < b\<close>; \<open>a > b\<close> is \<open>jlt b a\<close>.\<close>

fun jlt :: "jsnum \<Rightarrow> jsnum \<Rightarrow> bool" where
  "jlt (Fin a) (Fin b) = (a < b)"
| "jlt NaN _ = False"
| "jlt _ NaN = False"
| "jlt _ NInf = False"
| "jlt PInf _ = False"
| "jlt NInf _ = True"
| "jlt _ PInf = True"

definition jgt :: "jsnum \<Rightarrow> jsnum \<Rightarrow> bool" where
  "jgt a b = jlt b a"

text \<open>Strict equality \<open>a === b\<close> on numbers: \<open>NaN\<close> equals nothing.\<close>

definition jeq :: "jsnum \<Rightarrow> jsnum \<Rightarrow> bool" where
  "jeq a b = (a \<noteq> NaN \<and> a = b)"

definition jle :: "jsnum \<Rightarrow> jsnum \<Rightarrow> bool" where
  "jle a b = (jlt a b \<or> jeq a b)"

definition jge :: "jsnum \<Rightarrow> jsnum \<Rightarrow> bool" where
  "jge a b = jle b a"

fun jabs :: "jsnum \<Rightarrow> jsnum" where
  "jabs NaN = NaN"
| "jabs NInf = PInf"
| "jabs PInf = PInf"
| "jabs (Fin a) = Fin \<bar>a\<bar>"

fun jsqrt :: "jsnum \<Rightarrow> jsnum" where
  "jsqrt NaN = NaN"
| "jsqrt NInf = NaN"
| "jsqrt PInf = PInf"
| "jsqrt (Fin a) = (if a < 0 then NaN else Fin (sqrt a))"

fun jlog10 :: "jsnum \<Rightarrow> jsnum" where
  "jlog10 NaN = NaN"
| "jlog10 NInf = NaN"
| "jlog10 PInf = PInf"
| "jlog10 (Fin a) = (if a < 0 then NaN else if a = 0 then NInf else Fin (log 10 a))"

fun jcos :: "jsnum \<Rightarrow> jsnum" where
  "jcos (Fin a) = Fin (cos a)"
| "jcos _ = NaN"

fun jsin :: "jsnum \<Rightarrow> jsnum" where
  "jsin (Fin a) = Fin (sin a)"
| "jsin _ = NaN"

text \<open>\<open>Math.max(a, b)\<close> and \<open>Math.min(a, b)\<close>: \<open>NaN\<close> if either argument is.\<close>

definition jmax :: "jsnum \<Rightarrow> jsnum \<Rightarrow> jsnum" where
  "jmax a b = (if a = NaN \<or> b = NaN then NaN else if jlt a b then b else a)"

definition jmin :: "jsnum \<Rightarrow> jsnum \<Rightarrow> jsnum" where
  "jmin a b = (if a = NaN \<or> b = NaN then NaN else if jlt b a then b else a)"

text \<open>\<open>Math.max(...xs)\<close> and \<open>Math.min(...xs)\<close> of a spread array.\<close>

definition jmax_list :: "jsnum list \<Rightarrow> jsnum" where
  "jmax_list xs = fold (\<lambda>x m. jmax m x) xs NInf"

definition jmin_list :: "jsnum list \<Rightarrow> jsnum" where
  "jmin_list xs = fold (\<lambda>x m. jmin m x) xs PInf"

text \<open>
  \<open>Math.pow(b, e)\<close>. A zero exponent gives 1 even for a \<open>NaN\<close> base; a negative
  finite base has a real power only for an integer exponent.
\<close>

definition jpow :: "jsnum \<Rightarrow> jsnum \<Rightarrow> jsnum" where
  "jpow b e =
     (case e of
        NaN \<Rightarrow> NaN
      | PInf \<Rightarrow>
          (case b of
             NaN \<Rightarrow> NaN
           | Fin x \<Rightarrow> if \<bar>x\<bar> = 1 then NaN else if \<bar>x\<bar> < 1 then Fin 0 else PInf
           | _ \<Rightarrow> PInf)
      | NInf \<Rightarrow>
          (case b of
             NaN \<Rightarrow> NaN
           | Fin x \<Rightarrow> if \<bar>x\<bar> = 1 then NaN else if \<bar>x\<bar> < 1 then PInf else Fin 0
           | _ \<Rightarrow> Fin 0)
      | Fin y \<Rightarrow>
          if y = 0 then Fin 1
          else (case b of
             NaN \<Rightarrow> NaN
           | PInf \<Rightarrow> if 0 < y then PInf else Fin 0
           | NInf \<Rightarrow>
               if 0 < y then (if y \<in> \<int> \<and> odd \<lfloor>y\<rfloor> then NInf else PInf) else Fin 0
           | Fin x \<Rightarrow>
               if x = 0 then (if 0 < y then Fin 0 else PInf)
               else if 0 < x then Fin (x powr y)
               else if y \<in> \<int> then Fin ((if odd \<lfloor>y\<rfloor> then - 1 else 1) * (\<bar>x\<bar> powr y))
               else NaN))"

text \<open>
  \<open>xs.sort((a, b) => a - b)\<close> on a copy: a stable insertion of each element before
  the first one it does not exceed (comparator result not positive). On finite numbers
  this is the ascending sort; with \<open>NaN\<close> or two equal infinities in the array the
  comparator is inconsistent and the engine's order is implementation-defined, so the
  theorems below use the sort on finite entries only.
\<close>

fun js_insort :: "jsnum \<Rightarrow> jsnum list \<Rightarrow> jsnum list" where
  "js_insort x [] = [x]"
| "js_insort x (y # ys) =
     (if jgt (jsub x y) (Fin 0) then y # js_insort x ys else x # y # ys)"

definition js_sort :: "jsnum list \<Rightarrow> jsnum list" where
  "js_sort xs = foldr js_insort xs []"


section \<open>The voice-activity detector (src/core/audio/VAD.ts)\<close>

text \<open>
  A frame is the list of the samples of a \<open>Float32Array\<close>. Counters and lengths are
  natural numbers and enter the arithmetic through \<open>jnum\<close>. The private field
  \<open>frameBuffer\<close> and the two window sizes computed at the head of \<open>processFrame\<close>
  are never read and are left out. A field name that several records share is written
  with the name of its record.
\<close>

definition jnum :: "nat \<Rightarrow> jsnum" where
  "jnum n = Fin (real n)"

record VADConfig =
  sampleRate :: jsnum
  windowSize :: jsnum
  hopSize :: jsnum
  threshold :: jsnum
  minSpeechDuration :: jsnum
  minSilenceDuration :: jsnum
  sensitivity :: jsnum
  adaptiveThreshold :: bool

record VADResult =
  isSpeech :: bool
  confidence :: jsnum
  energy :: jsnum
  timestamp :: jsnum
  frameIndex :: nat
  voiceProbability :: jsnum
  spectralCentroid :: jsnum

record VADState =
  isSpeech :: bool
  speechStartTime :: jsnum
  speechEndTime :: jsnum
  totalSpeechDuration :: jsnum
  totalSilenceDuration :: jsnum
  speechFrames :: nat
  silenceFrames :: nat

record VoiceActivityDetector =
  config :: VADConfig
  frameIndex :: nat
  state :: VADState
  energyHistory :: "jsnum list"
  baselineEnergy :: jsnum
  adaptationRate :: jsnum
  lastVADResult :: "VADResult option"

definition initial_state :: VADState where
  "initial_state =
     \<lparr>VADState.isSpeech = False, speechStartTime = Fin 0, speechEndTime = Fin 0,
      totalSpeechDuration = Fin 0, totalSilenceDuration = Fin 0,
      speechFrames = 0, silenceFrames = 0\<rparr>"

text \<open>The constructor and the field initialisers of the class.\<close>

definition new_detector :: "VADConfig \<Rightarrow> VoiceActivityDetector" where
  "new_detector c =
     \<lparr>VoiceActivityDetector.config = c, VoiceActivityDetector.frameIndex = 0, state = initial_state,
      energyHistory = [], baselineEnergy = Fin 0, adaptationRate = Fin (1 / 100),
      VoiceActivityDetector.lastVADResult = None\<rparr>"

text \<open>
  \<open>calculateEnergy\<close> and \<open>calculateZeroCrossingRate\<close>, written alike in the
  detector and in the frame processor.
\<close>

definition sum_squares :: "jsnum list \<Rightarrow> jsnum" where
  "sum_squares xs = fold (\<lambda>x s. jadd s (jmul x x)) xs (Fin 0)"

definition calculateEnergy :: "jsnum list \<Rightarrow> jsnum" where
  "calculateEnergy audioData = jdiv (sum_squares audioData) (jnum (length audioData))"

fun crossings :: "jsnum list \<Rightarrow> nat" where
  "crossings (a # b # xs) =
     (if jge b (Fin 0) \<noteq> jge a (Fin 0) then 1 else 0) + crossings (b # xs)"
| "crossings _ = 0"

definition calculateZeroCrossingRate :: "jsnum list \<Rightarrow> jsnum" where
  "calculateZeroCrossingRate audioData =
     jdiv (jnum (crossings audioData)) (jnum (length audioData))"

text \<open>The loop of \<open>calculateSpectralCentroid\<close> runs over the indices from 1.\<close>

definition centroid_sums :: "jsnum \<Rightarrow> jsnum list \<Rightarrow> jsnum \<times> jsnum" where
  "centroid_sums rate audioData =
     fold (\<lambda>i (weightedSum, magnitudeSum).
             let magnitude = jabs (audioData ! i);
                 frequency = jdiv (jmul (jnum i) rate) (jnum (2 * length audioData))
             in (jadd weightedSum (jmul magnitude frequency), jadd magnitudeSum magnitude))
          [1 ..< length audioData] (Fin 0, Fin 0)"

definition calculateSpectralCentroid :: "VADConfig \<Rightarrow> jsnum list \<Rightarrow> jsnum" where
  "calculateSpectralCentroid c audioData =
     (let (weightedSum, magnitudeSum) = centroid_sums (VADConfig.sampleRate c) audioData
      in if jgt magnitudeSum (Fin 0) then jdiv weightedSum magnitudeSum else Fin 0)"

text \<open>The parameter \<open>threshold\<close> is received and not read, as in the source.\<close>

definition calculateVoiceProbability ::
  "VADConfig \<Rightarrow> jsnum \<Rightarrow> jsnum \<Rightarrow> jsnum \<Rightarrow> jsnum \<Rightarrow> jsnum" where
  "calculateVoiceProbability c en zcr centroid thr =
     (let normalizedEnergy = jmin (jmul en (Fin 10)) (Fin 1);
          normalizedZCR = jmax (Fin 0) (jmin (jmul zcr (Fin 10)) (Fin 1));
          normalizedCentroid = jmin (jdiv centroid (Fin 2000)) (Fin 1);
          energyWeight = Fin (5 / 10);
          zcrWeight = Fin (2 / 10);
          centroidWeight = Fin (3 / 10);
          probability =
            jadd (jadd (jmul normalizedEnergy energyWeight)
                       (jmul (jsub (Fin 1) normalizedZCR) zcrWeight))
                 (jmul normalizedCentroid centroidWeight);
          adjustedProbability = jpow probability (sensitivity c)
      in jmax (Fin 0) (jmin (Fin 1) adjustedProbability))"

text \<open>
  \<open>calculateAdaptiveThreshold\<close> returns the threshold and stores the smoothed value
  in \<open>baselineEnergy\<close>; with fewer than 10 energies it returns the configured
  threshold and stores nothing.
\<close>

definition calculateAdaptiveThreshold :: "VoiceActivityDetector \<Rightarrow> jsnum \<times> VoiceActivityDetector" where
  "calculateAdaptiveThreshold d =
     (if length (energyHistory d) < 10 then (threshold (VoiceActivityDetector.config d), d)
      else
        let sortedEnergies = js_sort (energyHistory d);
            medianIndex = length sortedEnergies div 2;
            medianEnergy = sortedEnergies ! medianIndex;
            adaptive = jmul medianEnergy (Fin (25 / 10));
            smoothedThreshold =
              jadd (jmul (baselineEnergy d) (jsub (Fin 1) (adaptationRate d)))
                   (jmul adaptive (adaptationRate d))
        in (jmax (jmul (threshold (VoiceActivityDetector.config d)) (Fin (5 / 10)))
                 (jmin smoothedThreshold (jmul (threshold (VoiceActivityDetector.config d)) (Fin 3))),
            d\<lparr>baselineEnergy := smoothedThreshold\<rparr>))"

definition applyHysteresis :: "VoiceActivityDetector \<Rightarrow> jsnum \<Rightarrow> bool" where
  "applyHysteresis d p =
     (case VoiceActivityDetector.lastVADResult d of
        None \<Rightarrow> jgt p (Fin (5 / 10))
      | Some r \<Rightarrow>
          let hysteresisFactor = Fin (1 / 10)
          in if VADResult.isSpeech r then jgt p (jsub (Fin (5 / 10)) hysteresisFactor)
             else jgt p (jadd (Fin (5 / 10)) hysteresisFactor))"

text \<open>
  \<open>updateState\<close>: the first conditional records a transition, the second counts the
  frame. The parameter \<open>energy\<close> is received and not read.
\<close>

definition updateState :: "VoiceActivityDetector \<Rightarrow> bool \<Rightarrow> jsnum \<Rightarrow> VoiceActivityDetector" where
  "updateState d speech en =
     (let now = jmul (jnum (VoiceActivityDetector.frameIndex d)) (hopSize (VoiceActivityDetector.config d));
          s = state d;
          s1 = (if speech \<and> \<not> VADState.isSpeech s
                then s\<lparr>VADState.isSpeech := True, speechStartTime := now\<rparr>
                else if \<not> speech \<and> VADState.isSpeech s
                then s\<lparr>VADState.isSpeech := False, speechEndTime := now,
                       totalSpeechDuration :=
                         jadd (totalSpeechDuration s) (jsub now (speechStartTime s))\<rparr>
                else s);
          s2 = (if speech then s1\<lparr>speechFrames := speechFrames s1 + 1\<rparr>
                else
                  let s' = s1\<lparr>silenceFrames := silenceFrames s1 + 1\<rparr>
                  in if VADState.isSpeech s'
                     then s'\<lparr>totalSilenceDuration :=
                              jadd (totalSilenceDuration s') (jsub now (speechEndTime s'))\<rparr>
                     else s')
      in d\<lparr>state := s2\<rparr>)"

text \<open>\<open>energyHistory.push(energy)\<close>, then \<open>shift()\<close> when more than 100 are held.\<close>

definition push_energy :: "jsnum \<Rightarrow> jsnum list \<Rightarrow> jsnum list" where
  "push_energy en h = (let h' = h @ [en] in if length h' > 100 then tl h' else h')"

text \<open>
  The operating threshold of a frame: \<open>let threshold = this.config.threshold\<close>,
  replaced by the adaptive one when \<open>adaptiveThreshold\<close> is set.
\<close>

definition operatingThreshold :: "VoiceActivityDetector \<Rightarrow> jsnum \<times> VoiceActivityDetector" where
  "operatingThreshold d =
     (if adaptiveThreshold (VoiceActivityDetector.config d) then calculateAdaptiveThreshold d
      else (threshold (VoiceActivityDetector.config d), d))"

definition processFrame :: "VoiceActivityDetector \<Rightarrow> jsnum list \<Rightarrow> VADResult \<times> VoiceActivityDetector" where
  "processFrame d audioData =
     (let en = calculateEnergy audioData;
          zcr = calculateZeroCrossingRate audioData;
          centroid = calculateSpectralCentroid (VoiceActivityDetector.config d) audioData;
          d1 = d\<lparr>energyHistory := push_energy en (energyHistory d)\<rparr>;
          (thr, d2) = operatingThreshold d1;
          probability = calculateVoiceProbability (VoiceActivityDetector.config d2) en zcr centroid thr;
          speech = applyHysteresis d2 probability;
          d3 = updateState d2 speech en;
          result =
            \<lparr>VADResult.isSpeech = speech, VADResult.confidence = probability, energy = en,
             VADResult.timestamp = jmul (jnum (VoiceActivityDetector.frameIndex d3)) (hopSize (VoiceActivityDetector.config d3)),
             VADResult.frameIndex = VoiceActivityDetector.frameIndex d3,
             voiceProbability = probability, spectralCentroid = centroid\<rparr>
      in (result,
          d3\<lparr>VoiceActivityDetector.lastVADResult := Some result,
             VoiceActivityDetector.frameIndex := VoiceActivityDetector.frameIndex d3 + 1\<rparr>))"


subsection \<open>The other operations of the detector\<close>

record VADStatistics =
  speechRatio :: jsnum
  silenceRatio :: jsnum
  averageEnergy :: jsnum
  energyVariance :: jsnum

definition getStatistics :: "VoiceActivityDetector \<Rightarrow> VADStatistics" where
  "getStatistics d =
     (let totalFrames = VoiceActivityDetector.frameIndex d;
          ratio = (if totalFrames > 0
                   then jdiv (jnum (speechFrames (state d))) (jnum totalFrames) else Fin 0);
          h = energyHistory d;
          average = (if length h > 0
                     then jdiv (fold (\<lambda>e s. jadd s e) h (Fin 0)) (jnum (length h))
                     else Fin 0);
          variance = (if length h > 1
                      then jdiv (fold (\<lambda>e s. jadd s (jpow (jsub e average) (Fin 2))) h (Fin 0))
                                (jnum (length h))
                      else Fin 0)
      in \<lparr>speechRatio = ratio, silenceRatio = jsub (Fin 1) ratio,
          VADStatistics.averageEnergy = average, energyVariance = variance\<rparr>)"

fun jfloor :: "jsnum \<Rightarrow> jsnum" where
  "jfloor (Fin a) = Fin (of_int \<lfloor>a\<rfloor>)"
| "jfloor x = x"

text \<open>
  \<open>xs.slice(0, end)\<close> for a number \<open>end\<close>: \<open>NaN\<close> counts as 0, a fraction is
  truncated toward zero, a negative end counts from the end of the array.
\<close>

definition slice_to :: "'a list \<Rightarrow> jsnum \<Rightarrow> 'a list" where
  "slice_to xs e =
     (case e of
        NaN \<Rightarrow> []
      | NInf \<Rightarrow> []
      | PInf \<Rightarrow> xs
      | Fin r \<Rightarrow>
          if r < 0 then take (nat (int (length xs) + \<lceil>r\<rceil>)) xs else take (nat \<lfloor>r\<rfloor>) xs)"

definition calibrate :: "VoiceActivityDetector \<Rightarrow> jsnum list \<Rightarrow> VoiceActivityDetector" where
  "calibrate d backgroundNoise =
     (let window = jfloor (jmul (jdiv (windowSize (VoiceActivityDetector.config d)) (Fin 1000)) (VADConfig.sampleRate (VoiceActivityDetector.config d)));
          noiseEnergy = calculateEnergy (slice_to backgroundNoise window);
          newThreshold = jmul noiseEnergy (Fin 3)
      in d\<lparr>VoiceActivityDetector.config := (VoiceActivityDetector.config d)\<lparr>threshold := jmax (Fin (1 / 1000)) newThreshold\<rparr>,
           baselineEnergy := newThreshold, energyHistory := []\<rparr>)"

definition reset :: "VoiceActivityDetector \<Rightarrow> VoiceActivityDetector" where
  "reset d =
     d\<lparr>state := initial_state, VoiceActivityDetector.frameIndex := 0, energyHistory := [],
       baselineEnergy := threshold (VoiceActivityDetector.config d), VoiceActivityDetector.lastVADResult := None\<rparr>"

text \<open>A \<open>Partial<VADConfig>\<close>: each key is present or absent.\<close>

record PartialVADConfig =
  sampleRate_opt :: "jsnum option"
  windowSize_opt :: "jsnum option"
  hopSize_opt :: "jsnum option"
  threshold_opt :: "jsnum option"
  minSpeechDuration_opt :: "jsnum option"
  minSilenceDuration_opt :: "jsnum option"
  sensitivity_opt :: "jsnum option"
  adaptiveThreshold_opt :: "bool option"

definition override :: "'a \<Rightarrow> 'a option \<Rightarrow> 'a" where
  "override old new = (case new of None \<Rightarrow> old | Some v \<Rightarrow> v)"

text \<open>\<open>this.config = { ...this.config, ...config }\<close>\<close>

definition updateConfig :: "VoiceActivityDetector \<Rightarrow> PartialVADConfig \<Rightarrow> VoiceActivityDetector" where
  "updateConfig d p =
     d\<lparr>VoiceActivityDetector.config :=
         \<lparr>VADConfig.sampleRate = override (VADConfig.sampleRate (VoiceActivityDetector.config d)) (sampleRate_opt p),
          windowSize = override (windowSize (VoiceActivityDetector.config d)) (windowSize_opt p),
          hopSize = override (hopSize (VoiceActivityDetector.config d)) (hopSize_opt p),
          threshold = override (threshold (VoiceActivityDetector.config d)) (threshold_opt p),
          minSpeechDuration = override (minSpeechDuration (VoiceActivityDetector.config d)) (minSpeechDuration_opt p),
          minSilenceDuration = override (minSilenceDuration (VoiceActivityDetector.config d)) (minSilenceDuration_opt p),
          sensitivity = override (sensitivity (VoiceActivityDetector.config d)) (sensitivity_opt p),
          adaptiveThreshold = override (adaptiveThreshold (VoiceActivityDetector.config d)) (adaptiveThreshold_opt p)\<rparr>\<rparr>"

definition setSensitivity :: "VoiceActivityDetector \<Rightarrow> jsnum \<Rightarrow> VoiceActivityDetector" where
  "setSensitivity d s =
     d\<lparr>VoiceActivityDetector.config := (VoiceActivityDetector.config d)\<lparr>sensitivity := jmax (Fin (1 / 10)) (jmin (Fin 2) s)\<rparr>\<rparr>"

definition setAdaptiveThreshold :: "VoiceActivityDetector \<Rightarrow> bool \<Rightarrow> VoiceActivityDetector" where
  "setAdaptiveThreshold d enabled =
     (let d' = d\<lparr>VoiceActivityDetector.config := (VoiceActivityDetector.config d)\<lparr>adaptiveThreshold := enabled\<rparr>\<rparr>
      in if enabled then d'\<lparr>adaptationRate := Fin (1 / 100)\<rparr> else d')"

subsection \<open>Runs of the detector\<close>

text \<open>A run of \<open>processFrame\<close> calls on one detector, with the results in order.\<close>

fun process_frames ::
  "VoiceActivityDetector \<Rightarrow> jsnum list list \<Rightarrow> VADResult list \<times> VoiceActivityDetector" where
  "process_frames d [] = ([], d)"
| "process_frames d (f # fs) =
     (let (r, d') = processFrame d f; (rs, d'') = process_frames d' fs in (r # rs, d''))"

text \<open>The calls a client can make that change the detector.\<close>

datatype vad_call =
    ProcessFrame "jsnum list"
  | Calibrate "jsnum list"
  | Reset
  | UpdateConfig PartialVADConfig
  | SetSensitivity jsnum
  | SetAdaptiveThreshold bool

fun call :: "VoiceActivityDetector \<Rightarrow> vad_call \<Rightarrow> VoiceActivityDetector" where
  "call d (ProcessFrame f) = snd (processFrame d f)"
| "call d (Calibrate f) = calibrate d f"
| "call d Reset = reset d"
| "call d (UpdateConfig p) = updateConfig d p"
| "call d (SetSensitivity s) = setSensitivity d s"
| "call d (SetAdaptiveThreshold b) = setAdaptiveThreshold d b"

definition calls :: "VoiceActivityDetector \<Rightarrow> vad_call list \<Rightarrow> VoiceActivityDetector" where
  "calls d cs = foldl call d cs"

text \<open>The number of frames processed after the last \<open>reset()\<close> of a call sequence.\<close>

fun is_frame :: "vad_call \<Rightarrow> bool" where
  "is_frame (ProcessFrame _) = True"
| "is_frame _ = False"

definition frames_since_reset :: "vad_call list \<Rightarrow> nat" where
  "frames_since_reset cs = length (filter is_frame (takeWhile (\<lambda>c. c \<noteq> Reset) (rev cs)))"

subsection \<open>Hysteresis on a sequence of probabilities\<close>


subsection \<open>The adaptive threshold in the words of the specification\<close>

text \<open>
  The specification's threshold: 2.5 times the median of the energy history, smoothed
  into the baseline \<open>b\<close> with factor 0.01, clamped between 0.5 and 3 times the
  configured threshold \<open>t\<close>. The median is the entry at index \<open>n div 2\<close> of the
  ascending history (the upper of the two middle entries when \<open>n\<close> is even).
\<close>

definition median :: "real list \<Rightarrow> real" where
  "median rs = sort rs ! (length rs div 2)"

definition spec_smoothed_baseline :: "real \<Rightarrow> real list \<Rightarrow> real" where
  "spec_smoothed_baseline b rs = b * (1 - 1 / 100) + (median rs * (25 / 10)) * (1 / 100)"

definition spec_adaptive_threshold :: "real \<Rightarrow> real \<Rightarrow> real list \<Rightarrow> real" where
  "spec_adaptive_threshold t b rs = max (t * (5 / 10)) (min (spec_smoothed_baseline b rs) (t * 3))"

subsection \<open>Example detectors and frames\<close>

definition example_config :: VADConfig where
  "example_config =
     \<lparr>VADConfig.sampleRate = Fin 16000, windowSize = Fin 30, hopSize = Fin 10, threshold = Fin 1,
      minSpeechDuration = Fin 100, minSilenceDuration = Fin 100, sensitivity = Fin 1,
      adaptiveThreshold = False\<rparr>"

definition adaptive_config :: VADConfig where
  "adaptive_config = example_config\<lparr>adaptiveThreshold := True\<rparr>"





text \<open>
  An adaptive detector that has processed nine frames of energy 1: the next frame is the
  tenth entry of its energy history.
\<close>

definition unit_frame :: "jsnum list" where
  "unit_frame = [Fin 1]"

definition warm_detector :: VoiceActivityDetector where
  "warm_detector =
     calls (new_detector adaptive_config)
       [ProcessFrame unit_frame, ProcessFrame unit_frame, ProcessFrame unit_frame,
        ProcessFrame unit_frame, ProcessFrame unit_frame, ProcessFrame unit_frame,
        ProcessFrame unit_frame, ProcessFrame unit_frame, ProcessFrame unit_frame]"


section \<open>The frame processor (src/core/audio/AudioProcessor.ts)\<close>

datatype AudioFormat = Wav | Mp3 | Ogg | Webm | Raw | Float32

record AudioConfig =
  sampleRate :: jsnum
  channels :: jsnum
  bitDepth :: jsnum
  format :: AudioFormat
  enableNormalization :: bool
  enableNoiseReduction :: bool
  enableVAD :: bool
  targetVolume :: jsnum
  silenceThreshold :: jsnum

text \<open>A \<open>Partial<AudioConfig>\<close>, the type of the second parameter of \<open>process\<close>.\<close>

record PartialAudioConfig =
  sampleRate_key :: "jsnum option"
  channels_key :: "jsnum option"
  bitDepth_key :: "jsnum option"
  format_key :: "AudioFormat option"
  enableNormalization_key :: "bool option"
  enableNoiseReduction_key :: "bool option"
  enableVAD_key :: "bool option"
  targetVolume_key :: "jsnum option"
  silenceThreshold_key :: "jsnum option"

record AudioQuality =
  snr :: jsnum
  dynamicRange :: jsnum
  clipping :: jsnum
  silence :: jsnum
  peakLevel :: jsnum
  rmsLevel :: jsnum
  thd :: jsnum

record SpectralData =
  frequencies :: "jsnum list"
  magnitudes :: "jsnum list"
  dominantFrequency :: jsnum
  bandwidth :: jsnum

record ProcessedAudio =
  data :: "jsnum list"
  format :: AudioFormat
  sampleRate :: jsnum
  channels :: jsnum
  duration :: jsnum
  volume :: jsnum
  hasVoice :: bool
  quality :: AudioQuality
  spectralAnalysis :: SpectralData

record AudioProcessorImpl =
  config :: AudioConfig
  noiseProfile :: "jsnum list option"

definition new_processor :: "AudioConfig \<Rightarrow> AudioProcessorImpl" where
  "new_processor c = \<lparr>AudioProcessorImpl.config = c, noiseProfile = None\<rparr>"

text \<open>\<open>{ ...this.config, ...config }\<close>: the keys present in the argument win.\<close>

definition merge_config :: "AudioConfig \<Rightarrow> PartialAudioConfig \<Rightarrow> AudioConfig" where
  "merge_config c p =
     \<lparr>AudioConfig.sampleRate = override (AudioConfig.sampleRate c) (sampleRate_key p),
      AudioConfig.channels = override (AudioConfig.channels c) (channels_key p),
      bitDepth = override (bitDepth c) (bitDepth_key p),
      AudioConfig.format = override (AudioConfig.format c) (format_key p),
      enableNormalization = override (enableNormalization c) (enableNormalization_key p),
      enableNoiseReduction = override (enableNoiseReduction c) (enableNoiseReduction_key p),
      enableVAD = override (enableVAD c) (enableVAD_key p),
      targetVolume = override (targetVolume c) (targetVolume_key p),
      silenceThreshold = override (silenceThreshold c) (silenceThreshold_key p)\<rparr>"

text \<open>An \<open>AudioConfig\<close> passed where a partial one is expected gives every key.\<close>

definition all_keys :: "AudioConfig \<Rightarrow> PartialAudioConfig" where
  "all_keys c =
     \<lparr>sampleRate_key = Some (AudioConfig.sampleRate c),
      channels_key = Some (AudioConfig.channels c),
      bitDepth_key = Some (bitDepth c),
      format_key = Some (AudioConfig.format c),
      enableNormalization_key = Some (enableNormalization c),
      enableNoiseReduction_key = Some (enableNoiseReduction c),
      enableVAD_key = Some (enableVAD c),
      targetVolume_key = Some (targetVolume c),
      silenceThreshold_key = Some (silenceThreshold c)\<rparr>"

definition no_keys :: PartialAudioConfig where
  "no_keys =
     \<lparr>sampleRate_key = None, channels_key = None, bitDepth_key = None, format_key = None,
      enableNormalization_key = None, enableNoiseReduction_key = None, enableVAD_key = None,
      targetVolume_key = None, silenceThreshold_key = None\<rparr>"

subsection \<open>Array reads and slices\<close>

text \<open>
  A read outside the array is \<open>undefined\<close>, which arithmetic turns into \<open>NaN\<close>.
\<close>

definition js_get :: "jsnum list \<Rightarrow> int \<Rightarrow> jsnum" where
  "js_get xs k = (if 0 \<le> k \<and> k < int (length xs) then xs ! nat k else NaN)"

text \<open>
  The position an argument of \<open>slice\<close> denotes in an array of length \<open>n\<close>: \<open>NaN\<close>
  counts as 0, a fraction is truncated toward zero, a negative position counts from the
  end, and the result is clamped to the array.
\<close>

definition slice_position :: "nat \<Rightarrow> jsnum \<Rightarrow> nat" where
  "slice_position n e =
     (case e of
        NaN \<Rightarrow> 0
      | NInf \<Rightarrow> 0
      | PInf \<Rightarrow> n
      | Fin r \<Rightarrow> if r < 0 then nat (int n + \<lceil>r\<rceil>) else min (nat \<lfloor>r\<rfloor>) n)"

definition js_slice :: "'a list \<Rightarrow> jsnum \<Rightarrow> jsnum \<Rightarrow> 'a list" where
  "js_slice xs s e =
     (let k = slice_position (length xs) s; final = slice_position (length xs) e
      in take (final - k) (drop k xs))"

subsection \<open>The steps of the processing chain\<close>

text \<open>
  \<open>convertToFloat32\<close>: two bytes per sample, low byte first. The array has
  \<open>bytes.length / 2\<close> elements, a fraction truncated (ECMAScript 2017 \<open>ToIndex\<close>).
\<close>

definition sample_of :: "8 word \<Rightarrow> 8 word \<Rightarrow> jsnum" where
  "sample_of lo hi =
     (let sample = (or (ucast lo) (push_bit 8 (ucast hi)) :: 32 word)
      in Fin ((real_of_int (sint sample) - 32768) / 32768))"

definition convertToFloat32 :: "8 word list \<Rightarrow> jsnum list" where
  "convertToFloat32 bytes =
     map (\<lambda>i. sample_of (bytes ! (i * 2)) (bytes ! (i * 2 + 1))) [0 ..< length bytes div 2]"

text \<open>\<open>normalize\<close> of the source.\<close>

definition normalize_frame :: "AudioProcessorImpl \<Rightarrow> jsnum list \<Rightarrow> jsnum list" where
  "normalize_frame p audioData =
     (let mx = jmax_list (map jabs audioData)
      in if jeq mx (Fin 0) then audioData
         else map (\<lambda>x. jmul (jdiv x mx) (targetVolume (AudioProcessorImpl.config p))) audioData)"

definition createNoiseProfile :: "jsnum list \<Rightarrow> jsnum list" where
  "createNoiseProfile audioData =
     js_slice audioData (Fin 0) (jfloor (jmul (jnum (length audioData)) (Fin (1 / 10))))"

text \<open>
  \<open>applySpectralSubtraction\<close>: the result has the length of the window and stays 0
  beyond the length of the noise profile.
\<close>

definition applySpectralSubtraction :: "jsnum list \<Rightarrow> jsnum list \<Rightarrow> jsnum list" where
  "applySpectralSubtraction window profile =
     map (\<lambda>i. if i < length profile
              then
                let alpha = Fin 2;
                    signalPower = jmul (window ! i) (window ! i);
                    noisePower = jmul (profile ! i) (profile ! i);
                    cleanSignal = jmax (jsub signalPower (jmul alpha noisePower))
                                       (jmul (Fin (1 / 100)) signalPower)
                in if jge (window ! i) (Fin 0) then jsqrt cleanSignal
                   else jneg (jsqrt cleanSignal)
              else Fin 0)
         [0 ..< length window]"

text \<open>The inner loop of \<open>denoise\<close>: \<open>denoised[i + j] = processedWindow[j]\<close>.\<close>

definition write_window :: "jsnum list \<Rightarrow> nat \<Rightarrow> jsnum list \<Rightarrow> jsnum list" where
  "write_window denoised i w =
     fold (\<lambda>j d. d[i + j := w ! j]) [0 ..< min (length w) (length denoised - i)] denoised"

function denoise_loop :: "jsnum list \<Rightarrow> jsnum list \<Rightarrow> nat \<Rightarrow> jsnum list \<Rightarrow> jsnum list" where
  "denoise_loop audioData profile i denoised =
     (if int i < int (length audioData) - 1024
      then denoise_loop audioData profile (i + 512)
             (write_window denoised i
                (applySpectralSubtraction (js_slice audioData (jnum i) (jnum (i + 1024))) profile))
      else denoised)"
  by pat_completeness auto
termination
  by (relation "measure (\<lambda>(audioData, profile, i, denoised). length audioData - i)") auto

text \<open>\<open>denoise\<close> creates the noise profile on first use and keeps it.\<close>

definition denoise :: "AudioProcessorImpl \<Rightarrow> jsnum list \<Rightarrow> jsnum list \<times> AudioProcessorImpl" where
  "denoise p audioData =
     (let profile = (case noiseProfile p of None \<Rightarrow> createNoiseProfile audioData | Some n \<Rightarrow> n)
      in (denoise_loop audioData profile 0 (replicate (length audioData) (Fin 0)),
          p\<lparr>noiseProfile := Some profile\<rparr>))"

definition applyGain :: "jsnum list \<Rightarrow> jsnum \<Rightarrow> jsnum list" where
  "applyGain audioData gain = map (\<lambda>x. jmul x gain) audioData"

definition calculateRMSVolume :: "jsnum list \<Rightarrow> jsnum" where
  "calculateRMSVolume audioData =
     jsqrt (jdiv (sum_squares audioData) (jnum (length audioData)))"

definition detectSilence :: "jsnum list \<Rightarrow> jsnum \<Rightarrow> bool" where
  "detectSilence audioData thr = jlt (calculateRMSVolume audioData) thr"

subsection \<open>Coarse voice activity\<close>

text \<open>
  The loop of \<open>detectVoiceActivity\<close>: \<open>for (let i = 0; i < windows; i++)\<close>, left
  by \<open>break\<close> when the window ends after the data. With a hop size of 0 and a window
  that fits, \<open>windows\<close> is \<open>Infinity\<close> and the loop does not end: the result is
  \<open>None\<close>.
\<close>

partial_function (option) voice_loop ::
  "jsnum \<Rightarrow> jsnum list \<Rightarrow> jsnum \<Rightarrow> jsnum \<Rightarrow> jsnum \<Rightarrow> nat \<Rightarrow> nat \<Rightarrow> nat option" where
  "voice_loop silenceThr audioData window hop windows i speechWindows =
     (if jlt (jnum i) windows
      then
        if jgt (jadd (jmul (jnum i) hop) window) (jnum (length audioData)) then Some speechWindows
        else
          voice_loop silenceThr audioData window hop windows (i + 1)
            (if jgt (calculateEnergy
                       (js_slice audioData (jmul (jnum i) hop) (jadd (jmul (jnum i) hop) window)))
                    silenceThr
                \<and> jlt (calculateZeroCrossingRate
                          (js_slice audioData (jmul (jnum i) hop) (jadd (jmul (jnum i) hop) window)))
                       (Fin (1 / 10))
             then speechWindows + 1 else speechWindows)
      else Some speechWindows)"

definition detectVoiceActivity :: "AudioProcessorImpl \<Rightarrow> jsnum list \<Rightarrow> bool option" where
  "detectVoiceActivity p audioData =
     (let window = jfloor (jmul (AudioConfig.sampleRate (AudioProcessorImpl.config p)) (Fin (3 / 100)));
          hop = jfloor (jdiv window (Fin 2));
          windows = jfloor (jdiv (jnum (length audioData)) hop)
      in map_option (\<lambda>speechWindows. jgt (jdiv (jnum speechWindows) windows) (Fin (3 / 10)))
           (voice_loop (silenceThreshold (AudioProcessorImpl.config p)) audioData window hop
              windows 0 0))"

subsection \<open>Quality metrics\<close>

text \<open>
  \<open>calculateSNR\<close>: the energies of the whole windows of 1024 samples, sorted; the
  entry at a tenth of their number is the noise, replaced by 0.0001 when it is missing,
  zero or \<open>NaN\<close> (\<open>energies[noiseIndex] || 0.0001\<close>).
\<close>

definition or_default :: "jsnum option \<Rightarrow> jsnum \<Rightarrow> jsnum" where
  "or_default v dflt =
     (case v of None \<Rightarrow> dflt | Some x \<Rightarrow> if x = NaN \<or> x = Fin 0 then dflt else x)"

definition calculateSNR :: "jsnum list \<Rightarrow> jsnum" where
  "calculateSNR audioData =
     (let signal = calculateEnergy audioData;
          windows = length audioData div 1024;
          energies = js_sort (map (\<lambda>i. calculateEnergy
                                     (js_slice audioData (jnum (i * 1024)) (jnum (i * 1024 + 1024))))
                                [0 ..< windows]);
          noiseIndex = length energies div 10;
          noise = or_default (if noiseIndex < length energies then Some (energies ! noiseIndex)
                              else None) (Fin (1 / 10000))
      in jmul (Fin 10) (jlog10 (jdiv signal (jmax noise (Fin (1 / 10000))))))"

text \<open>
  \<open>estimateFundamentalFrequency\<close>: the autocorrelation at each period from
  \<open>floor(sampleRate / 1000)\<close> up to, not including, \<open>floor(sampleRate / 50)\<close>. The
  loop runs only over finite bounds: a comparison with \<open>NaN\<close> or of equal infinities is
  false at once.
\<close>

definition correlation_at :: "jsnum list \<Rightarrow> int \<Rightarrow> jsnum" where
  "correlation_at audioData period =
     (let validSamples = int (length audioData) - period
      in jdiv (fold (\<lambda>i c. jadd c (jmul (js_get audioData i) (js_get audioData (i + period))))
                 [0 .. validSamples - 1] (Fin 0))
              (Fin (real_of_int validSamples)))"

definition best_period :: "jsnum list \<Rightarrow> int list \<Rightarrow> jsnum \<Rightarrow> jsnum" where
  "best_period audioData periods minPeriod =
     fst (fold (\<lambda>period (bestPeriod, bestCorrelation).
                  let correlation = correlation_at audioData period
                  in if jgt correlation bestCorrelation
                     then (Fin (real_of_int period), correlation)
                     else (bestPeriod, bestCorrelation))
            periods (minPeriod, Fin 0))"

definition estimateFundamentalFrequency :: "AudioProcessorImpl \<Rightarrow> jsnum list \<Rightarrow> jsnum" where
  "estimateFundamentalFrequency p audioData =
     (let rate = AudioConfig.sampleRate (AudioProcessorImpl.config p);
          minPeriod = jfloor (jdiv rate (Fin 1000));
          maxPeriod = jfloor (jdiv rate (Fin 50));
          periods = (case (minPeriod, maxPeriod) of
                       (Fin a, Fin b) \<Rightarrow> [\<lfloor>a\<rfloor> .. \<lfloor>b\<rfloor> - 1]
                     | _ \<Rightarrow> [])
      in jdiv rate (best_period audioData periods minPeriod))"

definition estimateAmplitudeAtFrequency :: "AudioProcessorImpl \<Rightarrow> jsnum list \<Rightarrow> jsnum \<Rightarrow> jsnum" where
  "estimateAmplitudeAtFrequency p audioData frequency =
     (let omega = jdiv (jmul (jmul (Fin 2) (Fin pi)) frequency)
                       (AudioConfig.sampleRate (AudioProcessorImpl.config p));
          (re, im) = fold (\<lambda>n (re, im).
                             (jadd re (jmul (audioData ! n) (jcos (jmul omega (jnum n)))),
                              jadd im (jmul (audioData ! n) (jsin (jmul omega (jnum n))))))
                       [0 ..< length audioData] (Fin 0, Fin 0)
      in jdiv (jsqrt (jadd (jmul re re) (jmul im im))) (jnum (length audioData)))"

definition estimateHarmonics :: "AudioProcessorImpl \<Rightarrow> jsnum list \<Rightarrow> jsnum \<Rightarrow> jsnum list" where
  "estimateHarmonics p audioData fundamental =
     map (\<lambda>h. estimateAmplitudeAtFrequency p audioData (jmul fundamental (jnum h))) [1 ..< 6]"

definition estimateTHD :: "AudioProcessorImpl \<Rightarrow> jsnum list \<Rightarrow> jsnum" where
  "estimateTHD p audioData =
     (let fundamental = estimateFundamentalFrequency p audioData;
          harmonics = estimateHarmonics p audioData fundamental;
          totalHarmonicPower = fold (\<lambda>h s. jadd s (jmul h h)) harmonics (Fin 0);
          fundamentalPower = jmul (harmonics ! 0) (harmonics ! 0)
      in jsqrt (jdiv totalHarmonicPower (jmax fundamentalPower (Fin (1 / 10000)))))"

definition calculateQuality :: "AudioProcessorImpl \<Rightarrow> jsnum list \<Rightarrow> AudioQuality" where
  "calculateQuality p audioData =
     (let mx = jmax_list (map jabs audioData);
          mn = jmin_list (map jabs audioData);
          clipped = length (filter (\<lambda>x. jgt (jabs x) (Fin (99 / 100))) audioData);
          silenceCount = length (filter (\<lambda>x. jlt (jabs x) (Fin (1 / 1000))) audioData)
      in \<lparr>snr = calculateSNR audioData,
          dynamicRange = jsub mx mn,
          clipping = jmul (jdiv (jnum clipped) (jnum (length audioData))) (Fin 100),
          silence = jmul (jdiv (jnum silenceCount) (jnum (length audioData))) (Fin 100),
          peakLevel = mx,
          rmsLevel = calculateRMSVolume audioData,
          thd = estimateTHD p audioData\<rparr>)"

subsection \<open>Spectral analysis\<close>

text \<open>
  The bandwidth loop of \<open>performSpectralAnalysis\<close> over the bins in order, left by
  \<open>break\<close> at the first bin where the cumulative energy reaches 95 percent.
\<close>

fun bandwidth_loop ::
  "(jsnum \<times> jsnum) list \<Rightarrow> jsnum \<Rightarrow> jsnum \<Rightarrow> jsnum \<Rightarrow> jsnum \<Rightarrow> jsnum \<times> jsnum" where
  "bandwidth_loop [] totalEnergy cumulativeEnergy bandwidthStart bandwidthEnd =
     (bandwidthStart, bandwidthEnd)"
| "bandwidth_loop ((frequency, magnitude) # bins) totalEnergy cumulativeEnergy bandwidthStart
     bandwidthEnd =
     (let cumulative = jadd cumulativeEnergy (jmul magnitude magnitude);
          start = (if jge cumulative (jmul totalEnergy (Fin (5 / 100))) \<and> jeq bandwidthStart (Fin 0)
                   then frequency else bandwidthStart)
      in if jge cumulative (jmul totalEnergy (Fin (95 / 100))) then (start, frequency)
         else bandwidth_loop bins totalEnergy cumulative start bandwidthEnd)"

definition dominant_index :: "jsnum list \<Rightarrow> nat" where
  "dominant_index ms =
     fst (fold (\<lambda>i (dominantIndex, maxMagnitude).
                  if jgt (ms ! i) maxMagnitude then (i, ms ! i)
                  else (dominantIndex, maxMagnitude))
            [1 ..< length ms] (0, Fin 0))"

definition performSpectralAnalysis :: "AudioProcessorImpl \<Rightarrow> jsnum list \<Rightarrow> SpectralData" where
  "performSpectralAnalysis p audioData =
     (let bins = 1024;
          binSize = jdiv (AudioConfig.sampleRate (AudioProcessorImpl.config p)) (jnum (2 * bins));
          fs = map (\<lambda>i. jmul (jnum i) binSize) [0 ..< bins];
          ms = map (\<lambda>f. estimateAmplitudeAtFrequency p audioData f) fs;
          totalEnergy = fold (\<lambda>m s. jadd s (jmul m m)) ms (Fin 0);
          (bandwidthStart, bandwidthEnd) =
            bandwidth_loop (zip fs ms) totalEnergy (Fin 0) (Fin 0) (fs ! (length fs - 1))
      in \<lparr>frequencies = fs, magnitudes = ms,
          dominantFrequency = fs ! dominant_index ms,
          bandwidth = jsub bandwidthEnd bandwidthStart\<rparr>)"

subsection \<open>The chain\<close>

text \<open>
  \<open>process\<close> stores the merged configuration in the processor, runs the chain on it
  and returns the frame with the processor as the call leaves it. The result is \<open>None\<close>
  when the voice-activity loop does not end.
\<close>

definition process ::
  "AudioProcessorImpl \<Rightarrow> 8 word list \<Rightarrow> PartialAudioConfig
     \<Rightarrow> (ProcessedAudio \<times> AudioProcessorImpl) option" where
  "process p audioData cfg =
     (let p1 = p\<lparr>AudioProcessorImpl.config := merge_config (AudioProcessorImpl.config p) cfg\<rparr>;
          floatData = convertToFloat32 audioData;
          normalized = (if enableNormalization (AudioProcessorImpl.config p1)
                        then normalize_frame p1 floatData else floatData);
          (denoised, p2) = (if enableNoiseReduction (AudioProcessorImpl.config p1)
                            then denoise p1 normalized else (normalized, p1));
          processed = applyGain denoised (targetVolume (AudioProcessorImpl.config p2))
      in case detectVoiceActivity p2 processed of
           None \<Rightarrow> None
         | Some voice \<Rightarrow>
             Some (\<lparr>data = processed,
                    ProcessedAudio.format = AudioConfig.format (AudioProcessorImpl.config p2),
                    ProcessedAudio.sampleRate = AudioConfig.sampleRate (AudioProcessorImpl.config p2),
                    ProcessedAudio.channels = AudioConfig.channels (AudioProcessorImpl.config p2),
                    duration = jdiv (jnum (length processed))
                                 (AudioConfig.sampleRate (AudioProcessorImpl.config p2)),
                    volume = calculateRMSVolume processed,
                    hasVoice = voice,
                    quality = calculateQuality p2 processed,
                    spectralAnalysis = performSpectralAnalysis p2 processed\<rparr>,
                   p2))"

text \<open>The other calls that change the processor.\<close>

definition calibrateNoiseProfile :: "AudioProcessorImpl \<Rightarrow> jsnum list \<Rightarrow> AudioProcessorImpl" where
  "calibrateNoiseProfile p backgroundNoise = p\<lparr>noiseProfile := Some backgroundNoise\<rparr>"

definition resetNoiseProfile :: "AudioProcessorImpl \<Rightarrow> AudioProcessorImpl" where
  "resetNoiseProfile p = p\<lparr>noiseProfile := None\<rparr>"

subsection \<open>Example processors and frames\<close>

definition example_audio_config :: AudioConfig where
  "example_audio_config =
     \<lparr>AudioConfig.sampleRate = Fin 16000, AudioConfig.channels = Fin 1, bitDepth = Fin 16,
      AudioConfig.format = Wav, enableNormalization = False, enableNoiseReduction = False,
      enableVAD = True, targetVolume = Fin 1, silenceThreshold = Fin (1 / 100)\<rparr>"

text \<open>The partial configuration \<open>{ targetVolume: 0.5 }\<close>.\<close>

definition half_volume :: PartialAudioConfig where
  "half_volume = no_keys\<lparr>targetVolume_key := Some (Fin (1 / 2))\<rparr>"

text \<open>One sample: the bytes \<open>00 C0\<close> are the sample \<open>(49152 - 32768) / 32768 = 0.5\<close>.\<close>

definition half_sample :: "8 word list" where
  "half_sample = [0, 192]"

text \<open>One sample of digital silence: the bytes \<open>00 80\<close> are the sample 0.\<close>

definition zero_sample :: "8 word list" where
  "zero_sample = [0, 128]"

text \<open>A processor with target volume 0.7.\<close>

definition loud_processor :: AudioProcessorImpl where
  "loud_processor = new_processor (example_audio_config\<lparr>targetVolume := Fin (7 / 10)\<rparr>)"

text \<open>The example processor after a call of \<open>process\<close> with \<open>{ targetVolume: 0.5 }\<close>.\<close>

definition quiet_processor :: AudioProcessorImpl where
  "quiet_processor = new_processor (example_audio_config\<lparr>targetVolume := Fin (1 / 2)\<rparr>)"


section \<open>The session manager (src/core/stt/AudioSessionManager.ts)\<close>

text \<open>
  Times are \<open>Date\<close> values in milliseconds. The transcription service, the microphone
  and the audio context are collaborators outside the repository's core: each call to
  them either returns or throws, and the outcome is a parameter of the operation that
  makes the call (\<open>None\<close>: it returns; \<open>Some e\<close>: it throws \<open>e\<close>). The detector
  and the frame processor of the configuration the manager was built with are held by
  the manager; sessions share them, as the spread of \<open>this.config\<close> in
  \<open>createSession\<close> does. Sessions carry no callback, as \<open>createSession\<close> leaves them;
  the frame callback of \<open>processAudioStream\<close> is not part of this model.
\<close>

text \<open>The field \<open>text\<close> of a transcript is \<open>transcript_text\<close> here.\<close>

record AudioTranscript =
  id :: string
  transcript_text :: string
  confidence :: jsnum
  timestamp :: int
  duration :: jsnum
  isFinal :: bool

record AudioSessionStatistics =
  totalDuration :: jsnum
  speakingDuration :: jsnum
  silenceDuration :: jsnum
  averageConfidence :: jsnum
  wordsPerMinute :: jsnum
  chunksProcessed :: nat
  errorCount :: nat
  voiceActivityRatio :: jsnum
  averageEnergy :: jsnum
  peakEnergy :: jsnum
  silencePeriods :: nat

record AudioSessionConfig =
  autoStart :: bool
  autoStop :: bool
  maxSessionDuration :: jsnum
  silenceTimeout :: jsnum
  minConfidence :: jsnum
  enablePartialResults :: bool
  audioConfig :: AudioConfig
  vadConfig :: VADConfig

text \<open>The \<open>options\<close> of \<open>createSession\<close>, a \<open>Partial<AudioSessionConfig>\<close>.\<close>

record PartialSessionConfig =
  autoStart_key :: "bool option"
  autoStop_key :: "bool option"
  maxSessionDuration_key :: "jsnum option"
  silenceTimeout_key :: "jsnum option"
  minConfidence_key :: "jsnum option"
  enablePartialResults_key :: "bool option"
  audioConfig_key :: "AudioConfig option"
  vadConfig_key :: "VADConfig option"

record AudioSession =
  id :: string
  config :: AudioSessionConfig
  isActive :: bool
  isRecording :: bool
  startTime :: int
  endTime :: "int option"
  audioChunks :: "8 word list list"
  processedChunks :: "8 word list list"
  transcripts :: "AudioTranscript list"
  statistics :: AudioSessionStatistics

record AudioSessionManager =
  sessions :: "string \<rightharpoonup> AudioSession"
  config :: AudioSessionConfig
  silenceTimer :: "string option"
  lastVADResult :: "VADResult option"
  activeAudioContext :: bool
  mediaStream :: bool
  vad :: VoiceActivityDetector
  audioProcessor :: AudioProcessorImpl

datatype session_error =
    SessionNotFound string
  | SessionAlreadyActive string
  | CollaboratorError string

text \<open>What the collaborators do during one \<open>startSession\<close> and one \<open>stopSession\<close>.\<close>

record start_outcomes =
  getUserMedia :: "string option"
  createAudioContext :: "string option"
  sttStartSession :: "string option"

record stop_outcomes =
  closeAudioContext :: "string option"
  sttStopSession :: "string option"

definition new_manager ::
  "AudioSessionConfig \<Rightarrow> VoiceActivityDetector \<Rightarrow> AudioProcessorImpl \<Rightarrow> AudioSessionManager" where
  "new_manager c v p =
     \<lparr>sessions = Map.empty, AudioSessionManager.config = c, silenceTimer = None,
      AudioSessionManager.lastVADResult = None, activeAudioContext = False, mediaStream = False,
      vad = v, audioProcessor = p\<rparr>"

definition merge_session_config :: "AudioSessionConfig \<Rightarrow> PartialSessionConfig \<Rightarrow> AudioSessionConfig" where
  "merge_session_config c p =
     \<lparr>autoStart = override (autoStart c) (autoStart_key p),
      autoStop = override (autoStop c) (autoStop_key p),
      maxSessionDuration = override (maxSessionDuration c) (maxSessionDuration_key p),
      silenceTimeout = override (silenceTimeout c) (silenceTimeout_key p),
      minConfidence = override (minConfidence c) (minConfidence_key p),
      enablePartialResults = override (enablePartialResults c) (enablePartialResults_key p),
      audioConfig = override (audioConfig c) (audioConfig_key p),
      vadConfig = override (vadConfig c) (vadConfig_key p)\<rparr>"

definition no_options :: PartialSessionConfig where
  "no_options =
     \<lparr>autoStart_key = None, autoStop_key = None, maxSessionDuration_key = None,
      silenceTimeout_key = None, minConfidence_key = None, enablePartialResults_key = None,
      audioConfig_key = None, vadConfig_key = None\<rparr>"

definition initial_statistics :: AudioSessionStatistics where
  "initial_statistics =
     \<lparr>totalDuration = Fin 0, speakingDuration = Fin 0, silenceDuration = Fin 0,
      averageConfidence = Fin 0, wordsPerMinute = Fin 0, chunksProcessed = 0, errorCount = 0,
      voiceActivityRatio = Fin 0, AudioSessionStatistics.averageEnergy = Fin 0, peakEnergy = Fin 0,
      silencePeriods = 0\<rparr>"

text \<open>The \<open>updateConfig\<close> methods called with a whole configuration.\<close>

definition processor_updateConfig :: "AudioProcessorImpl \<Rightarrow> PartialAudioConfig \<Rightarrow> AudioProcessorImpl" where
  "processor_updateConfig p cfg =
     p\<lparr>AudioProcessorImpl.config := merge_config (AudioProcessorImpl.config p) cfg\<rparr>"

definition all_vad_keys :: "VADConfig \<Rightarrow> PartialVADConfig" where
  "all_vad_keys c =
     \<lparr>sampleRate_opt = Some (VADConfig.sampleRate c), windowSize_opt = Some (windowSize c),
      hopSize_opt = Some (hopSize c), threshold_opt = Some (threshold c),
      minSpeechDuration_opt = Some (minSpeechDuration c),
      minSilenceDuration_opt = Some (minSilenceDuration c),
      sensitivity_opt = Some (sensitivity c), adaptiveThreshold_opt = Some (adaptiveThreshold c)\<rparr>"

definition set_session :: "AudioSessionManager \<Rightarrow> string \<Rightarrow> AudioSession \<Rightarrow> AudioSessionManager" where
  "set_session m sessionId s = m\<lparr>sessions := (sessions m)(sessionId \<mapsto> s)\<rparr>"

text \<open>
  \<open>startSession\<close>. The two checks throw before anything is written. Inside the
  \<open>try\<close>, \<open>startRecording\<close> awaits \<open>getUserMedia\<close>, sets \<open>isRecording\<close> and
  calls \<open>processAudioStream\<close> without awaiting it, so a failure to create the audio
  context is not propagated; then the transcription session is started. The \<open>catch\<close>
  clears both flags and rethrows.
\<close>

definition startSession ::
  "AudioSessionManager \<Rightarrow> start_outcomes \<Rightarrow> string \<Rightarrow> (session_error + unit) \<times> AudioSessionManager" where
  "startSession m env sessionId =
     (case sessions m sessionId of
        None \<Rightarrow> (Inl (SessionNotFound sessionId), m)
      | Some s \<Rightarrow>
          if isActive s then (Inl (SessionAlreadyActive sessionId), m)
          else
            let m1 = m\<lparr>audioProcessor :=
                         processor_updateConfig (audioProcessor m)
                           (all_keys (audioConfig (AudioSession.config s))),
                       vad := updateConfig (vad m) (all_vad_keys (vadConfig (AudioSession.config s)))\<rparr>;
                failed = s\<lparr>isActive := False, isRecording := False\<rparr>
            in case getUserMedia env of
                 Some e \<Rightarrow> (Inl (CollaboratorError e), set_session m1 sessionId failed)
               | None \<Rightarrow>
                   let m2 = m1\<lparr>mediaStream := True,
                               activeAudioContext :=
                                 (case createAudioContext env of
                                    None \<Rightarrow> True | Some _ \<Rightarrow> activeAudioContext m1)\<rparr>
                   in case sttStartSession env of
                        Some e \<Rightarrow> (Inl (CollaboratorError e), set_session m2 sessionId failed)
                      | None \<Rightarrow>
                          (Inr (),
                           set_session m2 sessionId (s\<lparr>isActive := True, isRecording := True\<rparr>)))"

text \<open>
  \<open>countSilencePeriods\<close>: the downward crossings of the confidence threshold along
  the transcripts.
\<close>

definition countSilencePeriods :: "AudioSession \<Rightarrow> nat" where
  "countSilencePeriods s =
     fst (fold (\<lambda>t (silencePeriods, wasInSpeech).
                  let isInSpeech = jgt (AudioTranscript.confidence t)
                                       (minConfidence (AudioSession.config s))
                  in (if \<not> isInSpeech \<and> wasInSpeech then silencePeriods + 1 else silencePeriods,
                      isInSpeech))
            (transcripts s) (0, False))"

definition calculateFinalStatistics :: "VoiceActivityDetector \<Rightarrow> AudioSession \<Rightarrow> AudioSession" where
  "calculateFinalStatistics v s =
     (case endTime s of
        None \<Rightarrow> s
      | Some ended \<Rightarrow>
          let total = Fin (real_of_int (ended - startTime s));
              vadStats = getStatistics v
          in s\<lparr>statistics := (statistics s)
                 \<lparr>totalDuration := total,
                  speakingDuration := jmul total (speechRatio vadStats),
                  silenceDuration := jmul total (silenceRatio vadStats),
                  silencePeriods := countSilencePeriods s\<rparr>\<rparr>)"

text \<open>
  \<open>stopSession\<close> has one check, that the session exists. \<open>stopRecording\<close> clears
  \<open>isRecording\<close> and the media stream, closes the audio context if there is one and
  clears the silence timer; then the transcription session is stopped, the end time is
  set to the time of the call and the statistics are computed. A collaborator's failure
  is rethrown with what was written before it.
\<close>

definition stopSession ::
  "AudioSessionManager \<Rightarrow> stop_outcomes \<Rightarrow> string \<Rightarrow> int
     \<Rightarrow> (session_error + unit) \<times> AudioSessionManager" where
  "stopSession m env sessionId now =
     (case sessions m sessionId of
        None \<Rightarrow> (Inl (SessionNotFound sessionId), m)
      | Some s \<Rightarrow>
          let s1 = s\<lparr>isRecording := False\<rparr>;
              m1 = (set_session m sessionId s1)\<lparr>mediaStream := False\<rparr>
          in case (if activeAudioContext m1 then closeAudioContext env else None) of
               Some e \<Rightarrow> (Inl (CollaboratorError e), m1)
             | None \<Rightarrow>
                 let m2 = m1\<lparr>activeAudioContext := False, silenceTimer := None\<rparr>
                 in case sttStopSession env of
                      Some e \<Rightarrow> (Inl (CollaboratorError e), m2)
                    | None \<Rightarrow>
                        (Inr (),
                         set_session m2 sessionId
                           (calculateFinalStatistics (vad m2)
                              (s1\<lparr>endTime := Some now, isActive := False\<rparr>))))"

text \<open>
  \<open>createSession\<close>: \<open>sessionId\<close> is the identifier \<open>generateSessionId\<close> returns
  and \<open>now\<close> the time of the call.
\<close>

definition createSession ::
  "AudioSessionManager \<Rightarrow> start_outcomes \<Rightarrow> PartialSessionConfig \<Rightarrow> string \<Rightarrow> int
     \<Rightarrow> (session_error + string) \<times> AudioSessionManager" where
  "createSession m env options sessionId now =
     (let sessionConfig = merge_session_config (AudioSessionManager.config m) options;
          session =
            \<lparr>AudioSession.id = sessionId, AudioSession.config = sessionConfig, isActive = False,
             isRecording = False, startTime = now, endTime = None, audioChunks = [],
             processedChunks = [], transcripts = [], statistics = initial_statistics\<rparr>;
          m1 = set_session m sessionId session
      in if autoStart sessionConfig
         then (case startSession m1 env sessionId of
                 (Inl e, m2) \<Rightarrow> (Inl e, m2)
               | (Inr _, m2) \<Rightarrow> (Inr sessionId, m2))
         else (Inr sessionId, m1))"

text \<open>
  The silence timer fires: the callback of \<open>startSilenceTimer\<close> stops the session if
  \<open>autoStop\<close> is set and the session is Active.
\<close>

definition silenceTimerFires ::
  "AudioSessionManager \<Rightarrow> stop_outcomes \<Rightarrow> string \<Rightarrow> int
     \<Rightarrow> (session_error + unit) \<times> AudioSessionManager" where
  "silenceTimerFires m env sessionId now =
     (case sessions m sessionId of
        None \<Rightarrow> (Inr (), m)
      | Some s \<Rightarrow>
          if autoStop (AudioSession.config s) \<and> isActive s then stopSession m env sessionId now
          else (Inr (), m))"

definition pauseSession :: "AudioSessionManager \<Rightarrow> string \<Rightarrow> AudioSessionManager" where
  "pauseSession m sessionId =
     (case sessions m sessionId of
        None \<Rightarrow> m
      | Some s \<Rightarrow> if isActive s then set_session m sessionId (s\<lparr>isRecording := False\<rparr>) else m)"

definition resumeSession :: "AudioSessionManager \<Rightarrow> string \<Rightarrow> AudioSessionManager" where
  "resumeSession m sessionId =
     (case sessions m sessionId of
        None \<Rightarrow> m
      | Some s \<Rightarrow> if isActive s then set_session m sessionId (s\<lparr>isRecording := True\<rparr>) else m)"

subsection \<open>An example manager and its collaborators' outcomes\<close>

definition example_session_config :: AudioSessionConfig where
  "example_session_config =
     \<lparr>autoStart = False, autoStop = True, maxSessionDuration = Fin 300000,
      silenceTimeout = Fin 3000, minConfidence = Fin (6 / 10), enablePartialResults = True,
      audioConfig = example_audio_config, vadConfig = example_config\<rparr>"

definition example_manager :: AudioSessionManager where
  "example_manager =
     new_manager example_session_config (new_detector example_config)
       (new_processor example_audio_config)"

definition all_succeed :: start_outcomes where
  "all_succeed = \<lparr>getUserMedia = None, createAudioContext = None, sttStartSession = None\<rparr>"

definition microphone_denied :: start_outcomes where
  "microphone_denied = all_succeed\<lparr>getUserMedia := Some ''NotAllowedError''\<rparr>"

definition transcription_refused :: start_outcomes where
  "transcription_refused = all_succeed\<lparr>sttStartSession := Some ''Speech recognition not initialized''\<rparr>"

definition context_unavailable :: start_outcomes where
  "context_unavailable = all_succeed\<lparr>createAudioContext := Some ''NotSupportedError''\<rparr>"

definition stop_succeeds :: stop_outcomes where
  "stop_succeeds = \<lparr>closeAudioContext = None, sttStopSession = None\<rparr>"

text \<open>
  One session, created at time 0, started, stopped at time 1000 and stopped again at
  time 2000.
\<close>

definition created_manager :: AudioSessionManager where
  "created_manager = snd (createSession example_manager all_succeed no_options ''audio_1'' 0)"

definition started_manager :: AudioSessionManager where
  "started_manager = snd (startSession created_manager all_succeed ''audio_1'')"

definition stopped_manager :: AudioSessionManager where
  "stopped_manager = snd (stopSession started_manager stop_succeeds ''audio_1'' 1000)"

definition stopped_twice_manager :: AudioSessionManager where
  "stopped_twice_manager = snd (stopSession stopped_manager stop_succeeds ''audio_1'' 2000)"

text \<open>The session \<open>createSession\<close> stores at time 0.\<close>

definition created_session :: AudioSession where
  "created_session =
     \<lparr>AudioSession.id = ''audio_1'', AudioSession.config = example_session_config,
      isActive = False, isRecording = False, startTime = 0, endTime = None, audioChunks = [],
      processedChunks = [], transcripts = [], statistics = initial_statistics\<rparr>"

definition restarted_manager :: AudioSessionManager where
  "restarted_manager = snd (startSession stopped_manager all_succeed ''audio_1'')"

section \<open>Properties of the voice-activity detector\<close>

subsection \<open>What one call of \<open>processFrame\<close> reads and writes\<close>

lemma operatingThreshold_fields:
  "VoiceActivityDetector.lastVADResult (snd (operatingThreshold d)) = VoiceActivityDetector.lastVADResult d"
  "VoiceActivityDetector.config (snd (operatingThreshold d)) = VoiceActivityDetector.config d"
  "VoiceActivityDetector.frameIndex (snd (operatingThreshold d)) = VoiceActivityDetector.frameIndex d"
  "state (snd (operatingThreshold d)) = state d"
  "energyHistory (snd (operatingThreshold d)) = energyHistory d"
  "adaptationRate (snd (operatingThreshold d)) = adaptationRate d"
  by (simp_all add: operatingThreshold_def calculateAdaptiveThreshold_def Let_def)

lemma updateState_fields:
  "VoiceActivityDetector.lastVADResult (updateState d b e) = VoiceActivityDetector.lastVADResult d"
  "VoiceActivityDetector.config (updateState d b e) = VoiceActivityDetector.config d"
  "VoiceActivityDetector.frameIndex (updateState d b e) = VoiceActivityDetector.frameIndex d"
  "energyHistory (updateState d b e) = energyHistory d"
  "adaptationRate (updateState d b e) = adaptationRate d"
  "baselineEnergy (updateState d b e) = baselineEnergy d"
  by (simp_all add: updateState_def Let_def)

lemma updateState_totalSilenceDuration:
  "totalSilenceDuration (state (updateState d b e)) = totalSilenceDuration (state d)"
  by (simp add: updateState_def Let_def)

lemma updateState_silenceFrames:
  "silenceFrames (state (updateState d b e)) = silenceFrames (state d) + (if b then 0 else 1)"
  by (simp add: updateState_def Let_def)




lemma processFrame_config:
  "VoiceActivityDetector.config (snd (processFrame d f)) = VoiceActivityDetector.config d"
  by (simp add: processFrame_def Let_def case_prod_beta updateState_fields operatingThreshold_fields)

lemma processFrame_adaptationRate:
  "adaptationRate (snd (processFrame d f)) = adaptationRate d"
  by (simp add: processFrame_def Let_def case_prod_beta updateState_fields operatingThreshold_fields)

lemma processFrame_frameIndex:
  "VADResult.frameIndex (fst (processFrame d f)) = VoiceActivityDetector.frameIndex d"
  "VoiceActivityDetector.frameIndex (snd (processFrame d f)) = VoiceActivityDetector.frameIndex d + 1"
  by (simp_all add: processFrame_def Let_def case_prod_beta updateState_fields operatingThreshold_fields)

lemma processFrame_energyHistory:
  "energyHistory (snd (processFrame d f)) = push_energy (calculateEnergy f) (energyHistory d)"
  by (simp add: processFrame_def Let_def case_prod_beta updateState_fields operatingThreshold_fields)

lemma processFrame_baselineEnergy:
  "baselineEnergy (snd (processFrame d f)) =
     baselineEnergy (snd (operatingThreshold (d\<lparr>energyHistory := push_energy (calculateEnergy f) (energyHistory d)\<rparr>)))"
  by (simp add: processFrame_def Let_def case_prod_beta updateState_fields)

lemma processFrame_state:
  "totalSilenceDuration (state (snd (processFrame d f))) = totalSilenceDuration (state d)"
  "silenceFrames (state (snd (processFrame d f))) =
     silenceFrames (state d) + (if VADResult.isSpeech (fst (processFrame d f)) then 0 else 1)"
  by (simp_all add: processFrame_def Let_def case_prod_beta updateState_totalSilenceDuration
      updateState_silenceFrames operatingThreshold_fields)

lemma push_energy_length: "length h \<le> 100 \<Longrightarrow> length (push_energy e h) \<le> 100"
  by (simp add: push_energy_def Let_def)














lemma call_energyHistory_bound:
  "length (energyHistory d) \<le> 100 \<Longrightarrow> length (energyHistory (call d c)) \<le> 100"
  by (cases c)
    (simp_all add: processFrame_energyHistory push_energy_length calibrate_def reset_def
      updateConfig_def setSensitivity_def setAdaptiveThreshold_def Let_def)

lemma calls_energyHistory_bound:
  "length (energyHistory d) \<le> 100 \<Longrightarrow> length (energyHistory (calls d cs)) \<le> 100"
  unfolding calls_def
  by (induction cs arbitrary: d) (simp_all add: call_energyHistory_bound)

lemma call_frameIndex:
  "VoiceActivityDetector.frameIndex (call d c) =
     (case c of ProcessFrame _ \<Rightarrow> VoiceActivityDetector.frameIndex d + 1 | Reset \<Rightarrow> 0
      | _ \<Rightarrow> VoiceActivityDetector.frameIndex d)"
  by (cases c)
    (simp_all add: processFrame_frameIndex calibrate_def reset_def
      updateConfig_def setSensitivity_def setAdaptiveThreshold_def Let_def)

lemma calls_snoc: "calls d (cs @ [c]) = call (calls d cs) c"
  by (simp add: calls_def)

lemma frames_since_reset_snoc:
  "frames_since_reset (cs @ [c]) =
     (case c of ProcessFrame _ \<Rightarrow> frames_since_reset cs + 1 | Reset \<Rightarrow> 0
      | _ \<Rightarrow> frames_since_reset cs)"
  by (cases c) (simp_all add: frames_since_reset_def)

lemma calls_frameIndex:
  "VoiceActivityDetector.frameIndex (calls (new_detector c) cs) = frames_since_reset cs"
proof (induction cs rule: rev_induct)
  case Nil
  show ?case by (simp add: calls_def frames_since_reset_def new_detector_def)
next
  case (snoc x xs)
  then show ?case
    by (simp only: calls_snoc call_frameIndex frames_since_reset_snoc split: vad_call.split)
qed

text \<open>
  Claim C9. After every sequence of calls on a new detector the energy history holds at
  most 100 entries and the frame counter is the number of frames processed after the
  last \<open>reset()\<close>, which is also the \<open>frameIndex\<close> of the next result: it starts at 0,
  \<open>processFrame\<close> adds 1 to it, \<open>reset\<close> sets it to 0, and no other call changes it.
\<close>
theorem history_bound_and_frame_counter:
  "length (energyHistory (calls (new_detector c) cs)) \<le> 100
   \<and> VoiceActivityDetector.frameIndex (calls (new_detector c) cs) = frames_since_reset cs
   \<and> VADResult.frameIndex (fst (processFrame (calls (new_detector c) cs) f)) = frames_since_reset cs
   \<and> VoiceActivityDetector.frameIndex (snd (processFrame d f)) = VoiceActivityDetector.frameIndex d + 1
   \<and> VoiceActivityDetector.frameIndex (reset d) = 0"
proof -
  have h: "length (energyHistory (calls (new_detector c) cs)) \<le> 100"
    by (rule calls_energyHistory_bound) (simp add: new_detector_def)
  have i: "VoiceActivityDetector.frameIndex (calls (new_detector c) cs) = frames_since_reset cs"
    by (rule calls_frameIndex)
  show ?thesis
    using h i by (simp add: processFrame_frameIndex reset_def)
qed

lemma process_frames_totalSilenceDuration:
  "totalSilenceDuration (state (snd (process_frames d fs))) = totalSilenceDuration (state d)"
  by (induction fs arbitrary: d) (simp_all add: case_prod_beta Let_def processFrame_state)

lemma process_frames_silenceFrames:
  "silenceFrames (state (snd (process_frames d fs))) =
     silenceFrames (state d) + length (filter (\<lambda>r. \<not> VADResult.isSpeech r) (fst (process_frames d fs)))"
  by (induction fs arbitrary: d) (simp_all add: case_prod_beta Let_def processFrame_state)

text \<open>
  Claim C10. On a new detector, after every sequence of \<open>processFrame\<close> calls,
  \<open>totalSilenceDuration\<close> is 0, while \<open>silenceFrames\<close> is the number of frames
  classified Silence. No call of \<open>updateState\<close> changes \<open>totalSilenceDuration\<close>, in
  whatever state: the branch that adds to it tests \<open>state.isSpeech\<close>, which the
  transition branch has already cleared for a Silence frame.
\<close>
theorem totalSilenceDuration_never_accumulates:
  "totalSilenceDuration (state (snd (process_frames (new_detector c) fs))) = Fin 0
   \<and> silenceFrames (state (snd (process_frames (new_detector c) fs))) =
       length (filter (\<lambda>r. \<not> VADResult.isSpeech r) (fst (process_frames (new_detector c) fs)))
   \<and> totalSilenceDuration (state (updateState d speech en)) = totalSilenceDuration (state d)"
  by (simp add: process_frames_totalSilenceDuration process_frames_silenceFrames
      updateState_totalSilenceDuration new_detector_def initial_state_def)

lemma js_insort_Fin: "js_insort (Fin x) (map Fin ys) = map Fin (insort x ys)"
  by (induction ys) (auto simp add: jgt_def jsub_def)

lemma js_sort_Fin: "js_sort (map Fin rs) = map Fin (sort rs)"
  unfolding js_sort_def sort_key_def
  by (induction rs) (simp_all add: js_insort_Fin)

lemma call_adaptationRate:
  "adaptationRate d = Fin (1 / 100) \<Longrightarrow> adaptationRate (call d c) = Fin (1 / 100)"
  by (cases c)
    (simp_all add: processFrame_adaptationRate calibrate_def reset_def
      updateConfig_def setSensitivity_def setAdaptiveThreshold_def Let_def)

lemma calls_adaptationRate:
  "adaptationRate (calls (new_detector c) cs) = Fin (1 / 100)"
proof (induction cs rule: rev_induct)
  case Nil
  show ?case by (simp add: calls_def new_detector_def)
next
  case (snoc x xs)
  then show ?case by (simp only: calls_snoc call_adaptationRate)
qed

lemma calculateAdaptiveThreshold_short:
  "length (energyHistory d) < 10 \<Longrightarrow> calculateAdaptiveThreshold d = (threshold (VoiceActivityDetector.config d), d)"
  by (simp add: calculateAdaptiveThreshold_def)

lemma calculateAdaptiveThreshold_finite:
  assumes "10 \<le> length rs" "energyHistory d = map Fin rs" "baselineEnergy d = Fin b"
    "threshold (VoiceActivityDetector.config d) = Fin t" "adaptationRate d = Fin (1 / 100)"
  shows "calculateAdaptiveThreshold d =
           (Fin (spec_adaptive_threshold t b rs),
            d\<lparr>baselineEnergy := Fin (spec_smoothed_baseline b rs)\<rparr>)"
proof -
  have i: "length rs div 2 < length (sort rs)" using assms(1) by simp
  have m: "js_sort (energyHistory d) ! (length (js_sort (energyHistory d)) div 2) = Fin (median rs)"
    using i by (simp add: assms(2) js_sort_Fin median_def)
  have n: "\<not> length (energyHistory d) < 10" using assms(1,2) by simp
  show ?thesis
    unfolding calculateAdaptiveThreshold_def Let_def m
    using n assms(3,4,5)
    by (simp add: spec_adaptive_threshold_def spec_smoothed_baseline_def jsub_def jmax_def jmin_def
        max_def min_def)
qed

text \<open>
  Claim C8, as the code has it. On every detector reached from a new one by calls of its
  operations, with \<open>adaptiveThreshold\<close> set: while the energy history, the energy of
  the current frame included, holds fewer than 10 entries, the operating threshold of
  \<open>processFrame\<close> is the configured threshold and the baseline is left as it is; from
  10 entries on (finite energies), the threshold is the specification's: 2.5 times the
  median of the history, smoothed into the baseline with factor 0.01 and stored there,
  then clamped, for a non-negative configured threshold, between 0.5 and 3 times it.
\<close>
theorem adaptive_threshold_after_ten_frames:
  assumes "d = calls (new_detector c) cs" and "adaptiveThreshold (VoiceActivityDetector.config d)"
    and "d1 = d\<lparr>energyHistory := push_energy (calculateEnergy f) (energyHistory d)\<rparr>"
  shows "(length (energyHistory d1) < 10 \<longrightarrow>
            operatingThreshold d1 = (threshold (VoiceActivityDetector.config d), d1)
            \<and> baselineEnergy (snd (processFrame d f)) = baselineEnergy d)
       \<and> (\<forall>rs b t. 10 \<le> length rs \<and> energyHistory d1 = map Fin rs
             \<and> baselineEnergy d = Fin b \<and> threshold (VoiceActivityDetector.config d) = Fin t
           \<longrightarrow> operatingThreshold d1 =
                 (Fin (spec_adaptive_threshold t b rs),
                  d1\<lparr>baselineEnergy := Fin (spec_smoothed_baseline b rs)\<rparr>)
               \<and> baselineEnergy (snd (processFrame d f)) = Fin (spec_smoothed_baseline b rs)
               \<and> (0 \<le> t \<longrightarrow> t * (5 / 10) \<le> spec_adaptive_threshold t b rs
                              \<and> spec_adaptive_threshold t b rs \<le> t * 3))"
proof -
  have a: "adaptiveThreshold (VoiceActivityDetector.config d1)" using assms(2,3) by simp
  have r: "adaptationRate d1 = Fin (1 / 100)"
    using assms(1,3) by (simp add: calls_adaptationRate)
  have short: "length (energyHistory d1) < 10 \<longrightarrow>
            operatingThreshold d1 = (threshold (VoiceActivityDetector.config d), d1)
            \<and> baselineEnergy (snd (processFrame d f)) = baselineEnergy d"
    using a assms(3)
    by (simp add: processFrame_baselineEnergy operatingThreshold_def calculateAdaptiveThreshold_short)
  have long: "operatingThreshold d1 =
                 (Fin (spec_adaptive_threshold t b rs),
                  d1\<lparr>baselineEnergy := Fin (spec_smoothed_baseline b rs)\<rparr>)
               \<and> baselineEnergy (snd (processFrame d f)) = Fin (spec_smoothed_baseline b rs)
               \<and> (0 \<le> t \<longrightarrow> t * (5 / 10) \<le> spec_adaptive_threshold t b rs
                              \<and> spec_adaptive_threshold t b rs \<le> t * 3)"
    if h: "10 \<le> length rs" "energyHistory d1 = map Fin rs" "baselineEnergy d = Fin b"
      "threshold (VoiceActivityDetector.config d) = Fin t" for rs b t
  proof -
    have b1: "baselineEnergy d1 = Fin b" "threshold (VoiceActivityDetector.config d1) = Fin t"
      using h(3,4) assms(3) by simp_all
    have o: "operatingThreshold d1 =
                 (Fin (spec_adaptive_threshold t b rs),
                  d1\<lparr>baselineEnergy := Fin (spec_smoothed_baseline b rs)\<rparr>)"
      using a calculateAdaptiveThreshold_finite [OF h(1) h(2) b1 r]
      by (simp add: operatingThreshold_def)
    have p: "baselineEnergy (snd (processFrame d f)) = Fin (spec_smoothed_baseline b rs)"
      using o assms(3) by (simp add: processFrame_baselineEnergy)
    have c: "0 \<le> t \<longrightarrow> t * (5 / 10) \<le> spec_adaptive_threshold t b rs
                              \<and> spec_adaptive_threshold t b rs \<le> t * 3"
      by (simp add: spec_adaptive_threshold_def)
    show ?thesis using o p c by simp
  qed
  show ?thesis using short long by blast
qed

lemma unit_frame_energy: "calculateEnergy unit_frame = Fin 1"
  by (simp add: calculateEnergy_def sum_squares_def unit_frame_def jnum_def)

lemma warm_detector_fields:
  "VoiceActivityDetector.config warm_detector = adaptive_config"
  "energyHistory warm_detector = map Fin [1, 1, 1, 1, 1, 1, 1, 1, 1]"
  "baselineEnergy warm_detector = Fin 0"
proof -
  show "VoiceActivityDetector.config warm_detector = adaptive_config"
    by (simp add: warm_detector_def calls_def processFrame_config new_detector_def)
  show "energyHistory warm_detector = map Fin [1, 1, 1, 1, 1, 1, 1, 1, 1]"
    by (simp add: warm_detector_def calls_def processFrame_energyHistory unit_frame_energy
        push_energy_def new_detector_def)
  have k: "baselineEnergy (snd (processFrame d unit_frame)) = baselineEnergy d"
    if "length (energyHistory d) < 9" for d
    using that
    by (simp add: processFrame_baselineEnergy operatingThreshold_def
        calculateAdaptiveThreshold_def push_energy_def)
  show "baselineEnergy warm_detector = Fin 0"
    by (simp add: warm_detector_def calls_def k processFrame_energyHistory unit_frame_energy
        push_energy_def new_detector_def)
qed

text \<open>
  The tenth frame of energy 1 on the adaptive example detector: median 1, baseline
  \<open>0.01 * 2.5 = 0.025\<close>, threshold clamped up to 0.5; and the first frame, where the
  threshold is the configured 1.
\<close>
theorem adaptive_threshold_after_ten_frames_witness:
  "operatingThreshold
     (warm_detector\<lparr>energyHistory := push_energy (calculateEnergy unit_frame) (energyHistory warm_detector)\<rparr>)
     = (Fin (1 / 2),
        warm_detector\<lparr>energyHistory := push_energy (calculateEnergy unit_frame) (energyHistory warm_detector),
                      baselineEnergy := Fin (1 / 40)\<rparr>)
   \<and> baselineEnergy (snd (processFrame warm_detector unit_frame)) = Fin (1 / 40)
   \<and> operatingThreshold
       ((new_detector adaptive_config)\<lparr>energyHistory :=
          push_energy (calculateEnergy unit_frame) (energyHistory (new_detector adaptive_config))\<rparr>)
     = (Fin 1,
        (new_detector adaptive_config)\<lparr>energyHistory :=
          push_energy (calculateEnergy unit_frame) (energyHistory (new_detector adaptive_config))\<rparr>)"
proof -
  let ?d1 = "warm_detector\<lparr>energyHistory := push_energy (calculateEnergy unit_frame) (energyHistory warm_detector)\<rparr>"
  let ?rs = "[1, 1, 1, 1, 1, 1, 1, 1, 1, 1 :: real]"
  have a: "adaptiveThreshold (VoiceActivityDetector.config warm_detector)"
    by (simp add: warm_detector_fields adaptive_config_def example_config_def)
  have h: "10 \<le> length ?rs \<and> energyHistory ?d1 = map Fin ?rs
      \<and> baselineEnergy warm_detector = Fin 0 \<and> threshold (VoiceActivityDetector.config warm_detector) = Fin 1"
    by (simp add: warm_detector_fields unit_frame_energy push_energy_def adaptive_config_def
        example_config_def)
  have m: "median ?rs = 1" by (simp add: median_def)
  have s: "spec_smoothed_baseline 0 ?rs = 1 / 40" "spec_adaptive_threshold 1 0 ?rs = 1 / 2"
    by (simp_all add: spec_smoothed_baseline_def spec_adaptive_threshold_def m)
  have long: "operatingThreshold ?d1 = (Fin (1 / 2), ?d1\<lparr>baselineEnergy := Fin (1 / 40)\<rparr>)
      \<and> baselineEnergy (snd (processFrame warm_detector unit_frame)) = Fin (1 / 40)"
    using adaptive_threshold_after_ten_frames [OF warm_detector_def a refl, of unit_frame,
        THEN conjunct2, rule_format, OF h]
    by (simp only: s)
  let ?n = "new_detector adaptive_config"
  let ?n1 = "?n\<lparr>energyHistory := push_energy (calculateEnergy unit_frame) (energyHistory ?n)\<rparr>"
  have n0: "?n = calls (new_detector adaptive_config) []" by (simp add: calls_def)
  have na: "adaptiveThreshold (VoiceActivityDetector.config ?n)"
    by (simp add: new_detector_def adaptive_config_def example_config_def)
  have nl: "length (energyHistory ?n1) < 10"
    by (simp add: new_detector_def push_energy_def)
  have short: "operatingThreshold ?n1 = (Fin 1, ?n1)"
    using adaptive_threshold_after_ten_frames [OF n0 na refl, of unit_frame,
        THEN conjunct1, rule_format, OF nl]
    by (simp add: new_detector_def adaptive_config_def example_config_def)
  show ?thesis using long short by simp
qed

text \<open>
  On the first frame the specification's formula gives the threshold 0.5 and the
  baseline 0.025; the code uses the configured threshold 1 and leaves the baseline 0.
\<close>
theorem adaptive_threshold_counterexample:
  "adaptiveThreshold (VoiceActivityDetector.config (new_detector adaptive_config))
   \<and> threshold (VoiceActivityDetector.config (new_detector adaptive_config)) = Fin 1
   \<and> baselineEnergy (new_detector adaptive_config) = Fin 0
   \<and> push_energy (calculateEnergy unit_frame) (energyHistory (new_detector adaptive_config)) = [Fin 1]
   \<and> fst (operatingThreshold
       ((new_detector adaptive_config)\<lparr>energyHistory :=
          push_energy (calculateEnergy unit_frame) (energyHistory (new_detector adaptive_config))\<rparr>))
      = Fin 1
   \<and> spec_adaptive_threshold 1 0 [1] = 1 / 2
   \<and> baselineEnergy (snd (processFrame (new_detector adaptive_config) unit_frame)) = Fin 0
   \<and> spec_smoothed_baseline 0 [1] = 1 / 40"
  by (simp add: processFrame_baselineEnergy operatingThreshold_def calculateAdaptiveThreshold_def
      unit_frame_energy push_energy_def new_detector_def adaptive_config_def example_config_def
      spec_adaptive_threshold_def spec_smoothed_baseline_def median_def)

section \<open>Properties of the frame processor\<close>












lemma windows_of_empty:
  "jfloor (jdiv (jnum 0) hop) = NaN \<or> jfloor (jdiv (jnum 0) hop) = Fin 0"
  by (cases hop) (simp_all add: jnum_def)

lemma voice_loop_empty:
  assumes "w = NaN \<or> w = Fin 0"
  shows "voice_loop thr audioData window hop w 0 0 = Some 0"
  using assms by (subst voice_loop.simps) (auto simp add: jnum_def)

lemma detectVoiceActivity_empty: "detectVoiceActivity p [] = Some False"
proof -
  let ?window = "jfloor (jmul (AudioConfig.sampleRate (AudioProcessorImpl.config p)) (Fin (3 / 100)))"
  let ?hop = "jfloor (jdiv ?window (Fin 2))"
  let ?w = "jfloor (jdiv (jnum 0) ?hop)"
  have w: "?w = NaN \<or> ?w = Fin 0" by (rule windows_of_empty)
  have l: "voice_loop (silenceThreshold (AudioProcessorImpl.config p)) [] ?window ?hop ?w 0 0 = Some 0"
    by (rule voice_loop_empty [OF w])
  have g: "\<not> jgt (jdiv (jnum 0) ?w) (Fin (3 / 10))"
    using w by (auto simp add: jgt_def jnum_def)
  show ?thesis
    unfolding detectVoiceActivity_def Let_def using l g by simp
qed

lemma denoise_empty: "fst (denoise p []) = []"
  by (simp add: denoise_def Let_def)

lemma empty_chain:
  "convertToFloat32 [] = []" "normalize_frame p [] = []" "applyGain [] g = []"
  by (simp_all add: convertToFloat32_def normalize_frame_def applyGain_def Let_def)

lemma empty_metrics:
  "calculateRMSVolume [] = NaN"
  "calculateEnergy [] = NaN"
  "jmax_list [] = NInf" "jmin_list [] = PInf"
  by (simp_all add: calculateRMSVolume_def calculateEnergy_def sum_squares_def jnum_def
      jmax_list_def jmin_list_def)

lemma empty_quality:
  "snr (calculateQuality p []) = NaN"
  "dynamicRange (calculateQuality p []) = NInf"
  "clipping (calculateQuality p []) = NaN"
  "silence (calculateQuality p []) = NaN"
  "peakLevel (calculateQuality p []) = NInf"
  "rmsLevel (calculateQuality p []) = NaN"
  by (simp_all add: calculateQuality_def calculateSNR_def Let_def empty_metrics jsub_def jnum_def)

lemma process_empty:
  "\<exists>r p'. process p [] cfg = Some (r, p') \<and> data r = [] \<and> volume r = NaN
     \<and> quality r = calculateQuality p' []"
  unfolding process_def Let_def
  by (simp add: empty_chain denoise_empty detectVoiceActivity_empty empty_metrics case_prod_beta)

lemma zero_sample_decoded: "convertToFloat32 zero_sample = [Fin 0]"
  by (simp add: convertToFloat32_def zero_sample_def sample_of_def Let_def)

lemma half_sample_decoded: "convertToFloat32 half_sample = [Fin (1 / 2)]"
  by (simp add: convertToFloat32_def half_sample_def sample_of_def Let_def)

lemma detectVoiceActivity_one_sample:
  assumes "AudioConfig.sampleRate (AudioProcessorImpl.config p) = Fin 16000"
  shows "detectVoiceActivity p [x] = Some False"
proof -
  have l: "voice_loop thr [x] (Fin 480) (Fin 240) (Fin 0) 0 0 = Some 0" for thr
    by (subst voice_loop.simps) (simp add: jnum_def)
  show ?thesis
    unfolding detectVoiceActivity_def Let_def
    using assms l by (simp add: jnum_def jgt_def)
qed

lemma snr_of_silence: "calculateSNR [Fin 0] = NInf"
  by (simp add: calculateSNR_def Let_def calculateEnergy_def sum_squares_def jnum_def js_sort_def
      or_default_def jmax_def signed_inf_def)

text \<open>
  Claim C4 at its failing inputs. For the empty raw frame, whatever the processor and
  the configuration, \<open>process\<close> returns a frame of no sample whose volume, RMS level,
  clipping, silence and signal-to-noise ratio are \<open>NaN\<close> and whose peak level and
  dynamic range are \<open>-Infinity\<close>: the divisions by the sample count are not guarded.
  For one sample of digital silence the signal-to-noise ratio is \<open>-Infinity\<close>: the
  noise is floored at 0.0001, the signal energy under the logarithm is not.
\<close>
theorem process_result_not_finite:
  "(\<exists>r p'. process p [] cfg = Some (r, p') \<and> data r = [] \<and> volume r = NaN
       \<and> rmsLevel (quality r) = NaN \<and> clipping (quality r) = NaN \<and> silence (quality r) = NaN
       \<and> snr (quality r) = NaN \<and> peakLevel (quality r) = NInf
       \<and> dynamicRange (quality r) = NInf)
   \<and> (\<exists>r p'. process (new_processor example_audio_config) zero_sample no_keys = Some (r, p')
       \<and> data r = [Fin 0] \<and> snr (quality r) = NInf)"
proof
  obtain r p' where r: "process p [] cfg = Some (r, p')" "data r = []" "volume r = NaN"
      "quality r = calculateQuality p' []"
    using process_empty by blast
  then show "\<exists>r p'. process p [] cfg = Some (r, p') \<and> data r = [] \<and> volume r = NaN
       \<and> rmsLevel (quality r) = NaN \<and> clipping (quality r) = NaN \<and> silence (quality r) = NaN
       \<and> snr (quality r) = NaN \<and> peakLevel (quality r) = NInf
       \<and> dynamicRange (quality r) = NInf"
    by (simp add: empty_quality)
next
  let ?p = "new_processor example_audio_config"
  have m: "merge_config example_audio_config no_keys = example_audio_config"
    by (simp add: merge_config_def no_keys_def override_def example_audio_config_def)
  have c: "AudioConfig.sampleRate (AudioProcessorImpl.config ?p) = Fin 16000"
    by (simp add: new_processor_def example_audio_config_def)
  have f: "\<not> enableNormalization example_audio_config" "\<not> enableNoiseReduction example_audio_config"
     "targetVolume example_audio_config = Fin 1"
    by (simp_all add: example_audio_config_def)
  have v: "detectVoiceActivity ?p [Fin 0] = Some False"
    by (rule detectVoiceActivity_one_sample [OF c])
  have q: "snr (calculateQuality ?p [Fin 0]) = NInf"
    by (simp add: calculateQuality_def Let_def snr_of_silence)
  show "\<exists>r p'. process ?p zero_sample no_keys = Some (r, p')
       \<and> data r = [Fin 0] \<and> snr (quality r) = NInf"
    unfolding process_def Let_def
    using v q
    by (simp add: new_processor_def m f zero_sample_decoded applyGain_def)
qed

lemma merge_all_keys: "merge_config c (all_keys c') = c'"
  by (simp add: merge_config_def all_keys_def override_def)

lemma merge_no_keys: "merge_config c no_keys = c"
  by (simp add: merge_config_def no_keys_def override_def)

lemma process_same_inputs:
  assumes "noiseProfile p = noiseProfile q"
    and "merge_config (AudioProcessorImpl.config p) cfg = merge_config (AudioProcessorImpl.config q) cfg"
  shows "process p raw cfg = process q raw cfg"
proof -
  have e: "p\<lparr>AudioProcessorImpl.config := merge_config (AudioProcessorImpl.config p) cfg\<rparr> =
        q\<lparr>AudioProcessorImpl.config := merge_config (AudioProcessorImpl.config q) cfg\<rparr>"
    using assms by (cases p, cases q) simp
  show ?thesis
    unfolding process_def Let_def e ..
qed

lemma denoise_state:
  "AudioProcessorImpl.config (snd (denoise p xs)) = AudioProcessorImpl.config p"
  "noiseProfile (snd (denoise p xs)) =
     Some (case noiseProfile p of None \<Rightarrow> createNoiseProfile xs | Some n \<Rightarrow> n)"
  by (simp_all add: denoise_def Let_def)

lemma process_state:
  assumes "process p raw cfg = Some (r, p')"
  shows "AudioProcessorImpl.config p' = merge_config (AudioProcessorImpl.config p) cfg"
    and "\<not> enableNoiseReduction (merge_config (AudioProcessorImpl.config p) cfg)
         \<Longrightarrow> noiseProfile p' = noiseProfile p"
    and "enableNoiseReduction (merge_config (AudioProcessorImpl.config p) cfg)
         \<Longrightarrow> noiseProfile p = Some n \<Longrightarrow> noiseProfile p' = Some n"
    and "enableNoiseReduction (merge_config (AudioProcessorImpl.config p) cfg)
         \<Longrightarrow> noiseProfile p' \<noteq> None"
  using assms unfolding process_def Let_def
  by (auto simp add: case_prod_beta denoise_state split: option.splits if_splits)

lemma process_one_sample:
  assumes "AudioConfig.sampleRate (merge_config (AudioProcessorImpl.config p) cfg) = Fin 16000"
    "\<not> enableNormalization (merge_config (AudioProcessorImpl.config p) cfg)"
    "\<not> enableNoiseReduction (merge_config (AudioProcessorImpl.config p) cfg)"
    "convertToFloat32 raw = [x]"
  shows "\<exists>r. process p raw cfg =
             Some (r, p\<lparr>AudioProcessorImpl.config := merge_config (AudioProcessorImpl.config p) cfg\<rparr>)
           \<and> data r = [jmul x (targetVolume (merge_config (AudioProcessorImpl.config p) cfg))]"
proof -
  let ?p1 = "p\<lparr>AudioProcessorImpl.config := merge_config (AudioProcessorImpl.config p) cfg\<rparr>"
  let ?y = "jmul x (targetVolume (merge_config (AudioProcessorImpl.config p) cfg))"
  have c: "AudioConfig.sampleRate (AudioProcessorImpl.config ?p1) = Fin 16000"
    using assms(1) by simp
  have v: "detectVoiceActivity ?p1 [?y] = Some False"
    by (rule detectVoiceActivity_one_sample [OF c])
  show ?thesis
    unfolding process_def Let_def using assms(2,3) v by (simp add: assms(4) applyGain_def)
qed

lemma process_example:
  assumes "AudioProcessorImpl.config p = example_audio_config\<lparr>targetVolume := Fin t\<rparr>"
  shows "map_option (data \<circ> fst) (process p half_sample no_keys) = Some [Fin (t / 2)]"
    and "map_option (data \<circ> fst) (process p half_sample (all_keys example_audio_config)) = Some [Fin (1 / 2)]"
    and "map_option snd (process p half_sample half_volume) =
           Some (p\<lparr>AudioProcessorImpl.config := example_audio_config\<lparr>targetVolume := Fin (1 / 2)\<rparr>\<rparr>)"
proof -
  have m: "merge_config (AudioProcessorImpl.config p) half_volume = example_audio_config\<lparr>targetVolume := Fin (1 / 2)\<rparr>"
    by (simp add: assms merge_config_def half_volume_def no_keys_def override_def example_audio_config_def)
  have m0: "merge_config (AudioProcessorImpl.config p) no_keys = example_audio_config\<lparr>targetVolume := Fin t\<rparr>"
    by (simp add: merge_no_keys assms)
  have m1: "merge_config (AudioProcessorImpl.config p) (all_keys example_audio_config) = example_audio_config\<lparr>targetVolume := Fin 1\<rparr>"
    by (simp add: merge_all_keys example_audio_config_def)
  have f: "AudioConfig.sampleRate (example_audio_config\<lparr>targetVolume := Fin u\<rparr>) = Fin 16000"
    "\<not> enableNormalization (example_audio_config\<lparr>targetVolume := Fin u\<rparr>)"
    "\<not> enableNoiseReduction (example_audio_config\<lparr>targetVolume := Fin u\<rparr>)"
    "targetVolume (example_audio_config\<lparr>targetVolume := Fin u\<rparr>) = Fin u" for u
    by (simp_all add: example_audio_config_def)
  have "\<exists>r. process p half_sample no_keys =
             Some (r, p\<lparr>AudioProcessorImpl.config := merge_config (AudioProcessorImpl.config p) no_keys\<rparr>)
           \<and> data r = [jmul (Fin (1 / 2)) (targetVolume (merge_config (AudioProcessorImpl.config p) no_keys))]"
    by (rule process_one_sample) (simp_all only: m0 f half_sample_decoded not_False_eq_True)
  then obtain r where r: "process p half_sample no_keys =
             Some (r, p\<lparr>AudioProcessorImpl.config := merge_config (AudioProcessorImpl.config p) no_keys\<rparr>)"
      "data r = [jmul (Fin (1 / 2)) (targetVolume (merge_config (AudioProcessorImpl.config p) no_keys))]"
    by blast
  show "map_option (data \<circ> fst) (process p half_sample no_keys) = Some [Fin (t / 2)]"
    by (simp add: r m0 f)
  have "\<exists>r. process p half_sample (all_keys example_audio_config) =
             Some (r, p\<lparr>AudioProcessorImpl.config := merge_config (AudioProcessorImpl.config p) (all_keys example_audio_config)\<rparr>)
           \<and> data r = [jmul (Fin (1 / 2)) (targetVolume (merge_config (AudioProcessorImpl.config p) (all_keys example_audio_config)))]"
    by (rule process_one_sample) (simp_all only: m1 f half_sample_decoded not_False_eq_True)
  then obtain r2 where r2: "process p half_sample (all_keys example_audio_config) =
             Some (r2, p\<lparr>AudioProcessorImpl.config := merge_config (AudioProcessorImpl.config p) (all_keys example_audio_config)\<rparr>)"
      "data r2 = [jmul (Fin (1 / 2)) (targetVolume (merge_config (AudioProcessorImpl.config p) (all_keys example_audio_config)))]"
    by blast
  show "map_option (data \<circ> fst) (process p half_sample (all_keys example_audio_config)) = Some [Fin (1 / 2)]"
    by (simp add: r2 m1 f)
  have "\<exists>r. process p half_sample half_volume =
             Some (r, p\<lparr>AudioProcessorImpl.config := merge_config (AudioProcessorImpl.config p) half_volume\<rparr>)
           \<and> data r = [jmul (Fin (1 / 2)) (targetVolume (merge_config (AudioProcessorImpl.config p) half_volume))]"
    by (rule process_one_sample) (simp_all only: m f half_sample_decoded not_False_eq_True)
  then obtain r3 where r3: "process p half_sample half_volume =
             Some (r3, p\<lparr>AudioProcessorImpl.config := merge_config (AudioProcessorImpl.config p) half_volume\<rparr>)"
    by blast
  show "map_option snd (process p half_sample half_volume) =
           Some (p\<lparr>AudioProcessorImpl.config := example_audio_config\<lparr>targetVolume := Fin (1 / 2)\<rparr>\<rparr>)"
    by (simp add: r3 m)
qed

lemma example_processors:
  "AudioProcessorImpl.config (new_processor example_audio_config) = example_audio_config\<lparr>targetVolume := Fin 1\<rparr>"
  "AudioProcessorImpl.config quiet_processor = example_audio_config\<lparr>targetVolume := Fin (1 / 2)\<rparr>"
  "AudioProcessorImpl.config loud_processor = example_audio_config\<lparr>targetVolume := Fin (7 / 10)\<rparr>"
  "noiseProfile (new_processor c) = None" "noiseProfile quiet_processor = None"
  "noiseProfile loud_processor = None"
  by (simp_all add: new_processor_def quiet_processor_def loud_processor_def example_audio_config_def)

text \<open>
  Claim C7, as the code has it. The result of \<open>process\<close>, and the processor it
  leaves, are a function of the raw frame, the cached noise profile and the stored
  configuration overridden by the keys of the configuration argument: two processors
  with the same noise profile and the same merged configuration give the same result,
  in particular when the argument gives every key. A call stores the merged
  configuration; it leaves the noise profile as it is unless noise reduction is enabled
  and no profile is cached yet.
\<close>
theorem process_depends_on_merged_config:
  "(noiseProfile p = noiseProfile q
      \<and> merge_config (AudioProcessorImpl.config p) cfg = merge_config (AudioProcessorImpl.config q) cfg
    \<longrightarrow> process p raw cfg = process q raw cfg)
   \<and> (noiseProfile p = noiseProfile q \<longrightarrow> process p raw (all_keys c) = process q raw (all_keys c))
   \<and> (\<forall>r p'. process p raw cfg = Some (r, p') \<longrightarrow>
         AudioProcessorImpl.config p' = merge_config (AudioProcessorImpl.config p) cfg
         \<and> (\<not> enableNoiseReduction (AudioProcessorImpl.config p') \<longrightarrow> noiseProfile p' = noiseProfile p)
         \<and> (\<forall>n. noiseProfile p = Some n \<longrightarrow> noiseProfile p' = Some n))"
proof (intro conjI allI impI)
  assume a: "noiseProfile p = noiseProfile q
      \<and> merge_config (AudioProcessorImpl.config p) cfg = merge_config (AudioProcessorImpl.config q) cfg"
  show "process p raw cfg = process q raw cfg"
    by (rule process_same_inputs [OF conjunct1 [OF a] conjunct2 [OF a]])
next
  assume a: "noiseProfile p = noiseProfile q"
  show "process p raw (all_keys c) = process q raw (all_keys c)"
    by (rule process_same_inputs [OF a]) (simp only: merge_all_keys)
next
  fix r p' assume a: "process p raw cfg = Some (r, p')"
  show "AudioProcessorImpl.config p' = merge_config (AudioProcessorImpl.config p) cfg"
    by (rule process_state(1) [OF a])
next
  fix r p' assume a: "process p raw cfg = Some (r, p')"
    and b: "\<not> enableNoiseReduction (AudioProcessorImpl.config p')"
  have "\<not> enableNoiseReduction (merge_config (AudioProcessorImpl.config p) cfg)"
    using b unfolding process_state(1) [OF a] .
  then show "noiseProfile p' = noiseProfile p"
    by (rule process_state(2) [OF a])
next
  fix r p' n assume a: "process p raw cfg = Some (r, p')" and b: "noiseProfile p = Some n"
  show "noiseProfile p' = Some n"
  proof (cases "enableNoiseReduction (merge_config (AudioProcessorImpl.config p) cfg)")
    case True
    then show ?thesis by (rule process_state(3) [OF a _ b])
  next
    case False
    then have "noiseProfile p' = noiseProfile p" by (rule process_state(2) [OF a])
    then show ?thesis by (simp only: b)
  qed
qed

text \<open>
  Two processors whose stored target volumes differ give the same result when the
  argument gives every key; a call with \<open>{ targetVolume: 0.5 }\<close> stores that volume.
\<close>
theorem process_depends_on_merged_config_witness:
  "process loud_processor half_sample (all_keys example_audio_config) =
     process quiet_processor half_sample (all_keys example_audio_config)
   \<and> map_option (data \<circ> fst) (process loud_processor half_sample (all_keys example_audio_config)) =
       Some [Fin (1 / 2)]
   \<and> map_option snd (process (new_processor example_audio_config) half_sample half_volume) =
       Some quiet_processor
   \<and> AudioProcessorImpl.config quiet_processor =
       merge_config (AudioProcessorImpl.config (new_processor example_audio_config)) half_volume"
proof -
  have n: "noiseProfile loud_processor = noiseProfile quiet_processor"
    by (simp add: example_processors)
  have same: "process loud_processor half_sample (all_keys example_audio_config) =
     process quiet_processor half_sample (all_keys example_audio_config)"
    by (rule process_depends_on_merged_config [of loud_processor quiet_processor
        "all_keys example_audio_config" half_sample example_audio_config,
        THEN conjunct2, THEN conjunct1, THEN mp, OF n])
  have d: "map_option (data \<circ> fst) (process loud_processor half_sample (all_keys example_audio_config)) =
       Some [Fin (1 / 2)]"
    by (rule process_example(2) [OF example_processors(3)])
  have s: "map_option snd (process (new_processor example_audio_config) half_sample half_volume) =
       Some quiet_processor"
    using process_example(3) [OF example_processors(1)]
    by (simp add: new_processor_def quiet_processor_def)
  then obtain r where r: "process (new_processor example_audio_config) half_sample half_volume =
      Some (r, quiet_processor)"
    by (cases "process (new_processor example_audio_config) half_sample half_volume") auto
  have c: "AudioProcessorImpl.config quiet_processor =
       merge_config (AudioProcessorImpl.config (new_processor example_audio_config)) half_volume"
    by (rule process_depends_on_merged_config [of "new_processor example_audio_config" quiet_processor
        half_volume half_sample example_audio_config,
        THEN conjunct2, THEN conjunct2, rule_format, OF r, THEN conjunct1])
  show ?thesis using same d s c by (intro conjI)
qed

text \<open>
  The same frame, the same empty configuration argument and the same noise profile:
  the sample 0.5 comes back as 0.5 from the example processor and as 0.25 once a call
  with \<open>{ targetVolume: 0.5 }\<close> has been made.
\<close>
theorem process_purity_counterexample:
  "noiseProfile (new_processor example_audio_config) = noiseProfile quiet_processor
   \<and> map_option snd (process (new_processor example_audio_config) half_sample half_volume) =
       Some quiet_processor
   \<and> map_option (data \<circ> fst) (process (new_processor example_audio_config) half_sample no_keys) =
       Some [Fin (1 / 2)]
   \<and> map_option (data \<circ> fst) (process quiet_processor half_sample no_keys) =
       Some [Fin (1 / 4)]"
proof -
  have s: "map_option snd (process (new_processor example_audio_config) half_sample half_volume) =
       Some quiet_processor"
    using process_example(3) [OF example_processors(1)]
    by (simp add: new_processor_def quiet_processor_def)
  have a: "map_option (data \<circ> fst) (process (new_processor example_audio_config) half_sample no_keys) =
       Some [Fin (1 / 2)]"
    using process_example(1) [OF example_processors(1)] by simp
  have b: "map_option (data \<circ> fst) (process quiet_processor half_sample no_keys) = Some [Fin (1 / 4)]"
    using process_example(1) [OF example_processors(2)] by simp
  show ?thesis
    using s a b by (simp add: example_processors)
qed

section \<open>Properties of the session manager\<close>

lemma set_session_lookup: "sessions (set_session m sid s) sid = Some s"
  by (simp add: set_session_def)

lemma startSession_unknown:
  "sessions m sid = None \<Longrightarrow> startSession m env sid = (Inl (SessionNotFound sid), m)"
  by (simp add: startSession_def)

lemma startSession_active:
  "sessions m sid = Some s \<Longrightarrow> isActive s \<Longrightarrow>
     startSession m env sid = (Inl (SessionAlreadyActive sid), m)"
  by (simp add: startSession_def)

lemma startSession_capture_fails:
  assumes "sessions m sid = Some s" "\<not> isActive s" "getUserMedia env = Some e"
  shows "fst (startSession m env sid) = Inl (CollaboratorError e)"
    and "sessions (snd (startSession m env sid)) sid = Some (s\<lparr>isActive := False, isRecording := False\<rparr>)"
    and "mediaStream (snd (startSession m env sid)) = mediaStream m"
  using assms by (simp_all add: startSession_def Let_def set_session_def)

lemma startSession_stt_fails:
  assumes "sessions m sid = Some s" "\<not> isActive s" "getUserMedia env = None"
    "sttStartSession env = Some e"
  shows "fst (startSession m env sid) = Inl (CollaboratorError e)"
    and "sessions (snd (startSession m env sid)) sid = Some (s\<lparr>isActive := False, isRecording := False\<rparr>)"
  using assms by (simp_all add: startSession_def Let_def set_session_def)

lemma startSession_succeeds:
  assumes "sessions m sid = Some s" "\<not> isActive s" "getUserMedia env = None"
    "sttStartSession env = None"
  shows "fst (startSession m env sid) = Inr ()"
    and "sessions (snd (startSession m env sid)) sid = Some (s\<lparr>isActive := True, isRecording := True\<rparr>)"
  using assms by (simp_all add: startSession_def Let_def set_session_def)

lemma startSession_other_sessions:
  "other \<noteq> sid \<Longrightarrow> sessions (snd (startSession m env sid)) other = sessions m other"
  by (simp add: startSession_def Let_def set_session_def split: option.splits)

text \<open>
  What \<open>startSession\<close> does for the failures it awaits. On an unknown identifier or
  on an Active session it returns an error at once and changes nothing. On a session
  that is not Active, a failure of the microphone or of the transcription service is
  returned to the caller as it was raised, the microphone's first (each collaborator is
  called once, nothing is tried again), and whenever the call fails the session is left
  with \<open>isActive\<close> and \<open>isRecording\<close> false.
\<close>
theorem startSession_fails_fast:
  "(sessions m sid = None \<longrightarrow> startSession m env sid = (Inl (SessionNotFound sid), m))
   \<and> (\<forall>s. sessions m sid = Some s \<and> isActive s \<longrightarrow>
          startSession m env sid = (Inl (SessionAlreadyActive sid), m))
   \<and> (\<forall>s e. sessions m sid = Some s \<and> \<not> isActive s \<and> getUserMedia env = Some e \<longrightarrow>
          fst (startSession m env sid) = Inl (CollaboratorError e))
   \<and> (\<forall>s e. sessions m sid = Some s \<and> \<not> isActive s \<and> getUserMedia env = None
            \<and> sttStartSession env = Some e \<longrightarrow>
          fst (startSession m env sid) = Inl (CollaboratorError e))
   \<and> (\<forall>s e. sessions m sid = Some s \<and> \<not> isActive s \<and> fst (startSession m env sid) = Inl e \<longrightarrow>
          (\<exists>s'. sessions (snd (startSession m env sid)) sid = Some s'
                \<and> \<not> isActive s' \<and> \<not> isRecording s')
          \<and> (\<exists>c. e = CollaboratorError c
                \<and> (getUserMedia env = Some c
                     \<or> getUserMedia env = None \<and> sttStartSession env = Some c)))"
proof (intro conjI allI impI)
  assume "sessions m sid = None"
  then show "startSession m env sid = (Inl (SessionNotFound sid), m)"
    by (rule startSession_unknown)
next
  fix s assume "sessions m sid = Some s \<and> isActive s"
  then show "startSession m env sid = (Inl (SessionAlreadyActive sid), m)"
    by (simp add: startSession_active)
next
  fix s e assume "sessions m sid = Some s \<and> \<not> isActive s \<and> getUserMedia env = Some e"
  then show "fst (startSession m env sid) = Inl (CollaboratorError e)"
    by (simp add: startSession_capture_fails)
next
  fix s e assume "sessions m sid = Some s \<and> \<not> isActive s \<and> getUserMedia env = None
            \<and> sttStartSession env = Some e"
  then show "fst (startSession m env sid) = Inl (CollaboratorError e)"
    by (simp add: startSession_stt_fails)
next
  fix s e assume a: "sessions m sid = Some s \<and> \<not> isActive s \<and> fst (startSession m env sid) = Inl e"
  then have k: "sessions m sid = Some s" and n: "\<not> isActive s"
    and f: "fst (startSession m env sid) = Inl e" by simp_all
  show "\<exists>s'. sessions (snd (startSession m env sid)) sid = Some s'
                \<and> \<not> isActive s' \<and> \<not> isRecording s'"
  proof (cases "getUserMedia env")
    case (Some c)
    show ?thesis by (simp add: startSession_capture_fails(2) [OF k n Some])
  next
    case None
    show ?thesis
    proof (cases "sttStartSession env")
      case (Some c)
      show ?thesis by (simp add: startSession_stt_fails(2) [OF k n None Some])
    next
      case none: None
      show ?thesis using f startSession_succeeds(1) [OF k n None none] by simp
    qed
  qed
next
  fix s e assume a: "sessions m sid = Some s \<and> \<not> isActive s \<and> fst (startSession m env sid) = Inl e"
  then have k: "sessions m sid = Some s" and n: "\<not> isActive s"
    and f: "fst (startSession m env sid) = Inl e" by simp_all
  show "\<exists>c. e = CollaboratorError c
                \<and> (getUserMedia env = Some c
                     \<or> getUserMedia env = None \<and> sttStartSession env = Some c)"
  proof (cases "getUserMedia env")
    case (Some c)
    show ?thesis using f startSession_capture_fails(1) [OF k n Some] Some by auto
  next
    case None
    show ?thesis
    proof (cases "sttStartSession env")
      case (Some c)
      show ?thesis using f startSession_stt_fails(1) [OF k n None Some] Some None by auto
    next
      case none: None
      show ?thesis using f startSession_succeeds(1) [OF k n None none] by simp
    qed
  qed
qed


lemma example_session_facts:
  "\<not> autoStart example_session_config" "autoStop example_session_config"
  by (simp_all add: example_session_config_def)

lemma created_manager_session: "sessions created_manager ''audio_1'' = Some created_session"
  by (simp add: created_manager_def createSession_def Let_def example_manager_def new_manager_def
      merge_session_config_def no_options_def override_def example_session_config_def
      set_session_def created_session_def)

lemma created_session_flags: "\<not> isActive created_session" "\<not> isRecording created_session"
  by (simp_all add: created_session_def)

lemma outcomes:
  "getUserMedia all_succeed = None" "sttStartSession all_succeed = None"
  "getUserMedia microphone_denied = Some ''NotAllowedError''"
  "getUserMedia transcription_refused = None"
  "sttStartSession transcription_refused = Some ''Speech recognition not initialized''"
  "closeAudioContext stop_succeeds = None" "sttStopSession stop_succeeds = None"
  by (simp_all add: all_succeed_def microphone_denied_def transcription_refused_def stop_succeeds_def)

lemma started_manager_session:
  "sessions started_manager ''audio_1'' = Some (created_session\<lparr>isActive := True, isRecording := True\<rparr>)"
  unfolding started_manager_def
  by (rule startSession_succeeds(2) [OF created_manager_session created_session_flags(1) outcomes(1,2)])

text \<open>
  An unknown identifier, a second start, a denied microphone and a refused
  transcription session on the example manager.
\<close>
theorem startSession_fails_fast_witness:
  "startSession created_manager all_succeed ''audio_2'' = (Inl (SessionNotFound ''audio_2''), created_manager)
   \<and> startSession started_manager all_succeed ''audio_1'' =
       (Inl (SessionAlreadyActive ''audio_1''), started_manager)
   \<and> fst (startSession created_manager microphone_denied ''audio_1'') =
       Inl (CollaboratorError ''NotAllowedError'')
   \<and> fst (startSession created_manager transcription_refused ''audio_1'') =
       Inl (CollaboratorError ''Speech recognition not initialized'')
   \<and> map_option isActive (sessions (snd (startSession created_manager microphone_denied ''audio_1'')) ''audio_1'')
       = Some False
   \<and> map_option isRecording (sessions (snd (startSession created_manager microphone_denied ''audio_1'')) ''audio_1'')
       = Some False"
proof -
  have u: "sessions created_manager ''audio_2'' = None"
    by (simp add: created_manager_def createSession_def Let_def example_manager_def new_manager_def
      example_session_facts merge_session_config_def no_options_def override_def set_session_def)
  have unknown: "startSession created_manager all_succeed ''audio_2'' =
      (Inl (SessionNotFound ''audio_2''), created_manager)"
    by (rule startSession_fails_fast [of created_manager "''audio_2''" all_succeed,
        THEN conjunct1, THEN mp, OF u])
  have a: "sessions started_manager ''audio_1'' = Some (created_session\<lparr>isActive := True, isRecording := True\<rparr>)
      \<and> isActive (created_session\<lparr>isActive := True, isRecording := True\<rparr>)"
    by (simp add: started_manager_session)
  have active: "startSession started_manager all_succeed ''audio_1'' =
       (Inl (SessionAlreadyActive ''audio_1''), started_manager)"
    by (rule startSession_fails_fast [of started_manager "''audio_1''" all_succeed,
        THEN conjunct2, THEN conjunct1, rule_format, OF a])
  have c: "sessions created_manager ''audio_1'' = Some created_session \<and> \<not> isActive created_session
      \<and> getUserMedia microphone_denied = Some ''NotAllowedError''"
    by (simp add: created_manager_session created_session_flags outcomes)
  have denied: "fst (startSession created_manager microphone_denied ''audio_1'') =
       Inl (CollaboratorError ''NotAllowedError'')"
    by (rule startSession_fails_fast [of created_manager "''audio_1''" microphone_denied,
        THEN conjunct2, THEN conjunct2, THEN conjunct1, rule_format, OF c])
  have t: "sessions created_manager ''audio_1'' = Some created_session \<and> \<not> isActive created_session
      \<and> getUserMedia transcription_refused = None
      \<and> sttStartSession transcription_refused = Some ''Speech recognition not initialized''"
    by (simp add: created_manager_session created_session_flags outcomes)
  have refused: "fst (startSession created_manager transcription_refused ''audio_1'') =
       Inl (CollaboratorError ''Speech recognition not initialized'')"
    by (rule startSession_fails_fast [of created_manager "''audio_1''" transcription_refused,
        THEN conjunct2, THEN conjunct2, THEN conjunct2, THEN conjunct1, rule_format, OF t])
  have f: "sessions created_manager ''audio_1'' = Some created_session \<and> \<not> isActive created_session
      \<and> fst (startSession created_manager microphone_denied ''audio_1'') =
          Inl (CollaboratorError ''NotAllowedError'')"
    using denied by (simp add: created_manager_session created_session_flags)
  have "\<exists>s'. sessions (snd (startSession created_manager microphone_denied ''audio_1'')) ''audio_1'' = Some s'
                \<and> \<not> isActive s' \<and> \<not> isRecording s'"
    by (rule startSession_fails_fast [of created_manager "''audio_1''" microphone_denied,
        THEN conjunct2, THEN conjunct2, THEN conjunct2, THEN conjunct2, rule_format, OF f,
        THEN conjunct1])
  then have flags: "map_option isActive (sessions (snd (startSession created_manager microphone_denied ''audio_1'')) ''audio_1'')
       = Some False
      \<and> map_option isRecording (sessions (snd (startSession created_manager microphone_denied ''audio_1'')) ''audio_1'')
       = Some False"
    by auto
  show ?thesis using unknown active denied refused flags by (intro conjI) simp_all
qed


text \<open>
  Claim C5 at its failing input. When the audio context cannot be created,
  \<open>processAudioStream\<close> fails, but \<open>startRecording\<close> calls it without awaiting it:
  \<open>startSession\<close> returns without error and leaves the session Active and recording,
  with no audio context to deliver frames.
\<close>
theorem startSession_swallows_context_failure:
  "createAudioContext context_unavailable = Some ''NotSupportedError''
   \<and> fst (startSession created_manager context_unavailable ''audio_1'') = Inr ()
   \<and> map_option isActive
         (sessions (snd (startSession created_manager context_unavailable ''audio_1'')) ''audio_1'')
       = Some True
   \<and> map_option isRecording
         (sessions (snd (startSession created_manager context_unavailable ''audio_1'')) ''audio_1'')
       = Some True
   \<and> \<not> activeAudioContext (snd (startSession created_manager context_unavailable ''audio_1''))"
proof -
  have o: "getUserMedia context_unavailable = None" "sttStartSession context_unavailable = None"
    "createAudioContext context_unavailable = Some ''NotSupportedError''"
    by (simp_all add: context_unavailable_def all_succeed_def)
  have c: "\<not> activeAudioContext created_manager"
    by (simp add: created_manager_def createSession_def Let_def example_manager_def new_manager_def
      example_session_facts merge_session_config_def no_options_def override_def set_session_def)
  have a: "\<not> activeAudioContext (snd (startSession created_manager context_unavailable ''audio_1''))"
    using c by (simp add: startSession_def Let_def created_manager_session created_session_flags o
        set_session_def)
  show ?thesis
    using a o(3)
    by (simp add: startSession_succeeds [OF created_manager_session created_session_flags(1) o(1,2)])
qed

lemma stopSession_unknown:
  "sessions m sid = None \<Longrightarrow> stopSession m env sid now = (Inl (SessionNotFound sid), m)"
  by (simp add: stopSession_def)

lemma stopSession_succeeds:
  assumes "sessions m sid = Some s" "closeAudioContext env = None" "sttStopSession env = None"
  shows "stopSession m env sid now =
     (Inr (),
      m\<lparr>sessions := (sessions m)(sid \<mapsto>
            calculateFinalStatistics (vad m)
              (s\<lparr>isRecording := False, endTime := Some now, isActive := False\<rparr>)),
        mediaStream := False, activeAudioContext := False, silenceTimer := None\<rparr>)"
  using assms by (simp add: stopSession_def Let_def set_session_def)

lemma calculateFinalStatistics_fields:
  assumes "endTime s = Some ended"
  shows "isActive (calculateFinalStatistics v s) = isActive s"
    "isRecording (calculateFinalStatistics v s) = isRecording s"
    "endTime (calculateFinalStatistics v s) = Some ended"
    "startTime (calculateFinalStatistics v s) = startTime s"
    "transcripts (calculateFinalStatistics v s) = transcripts s"
    "AudioSession.config (calculateFinalStatistics v s) = AudioSession.config s"
    "totalDuration (statistics (calculateFinalStatistics v s)) = Fin (real_of_int (ended - startTime s))"
    "speakingDuration (statistics (calculateFinalStatistics v s)) =
       jmul (Fin (real_of_int (ended - startTime s))) (speechRatio (getStatistics v))"
    "silenceDuration (statistics (calculateFinalStatistics v s)) =
       jmul (Fin (real_of_int (ended - startTime s))) (silenceRatio (getStatistics v))"
    "silencePeriods (statistics (calculateFinalStatistics v s)) = countSilencePeriods s"
  using assms by (simp_all add: calculateFinalStatistics_def Let_def)

lemma countSilencePeriods_cong:
  "transcripts s = transcripts s' \<Longrightarrow> AudioSession.config s = AudioSession.config s'
     \<Longrightarrow> countSilencePeriods s = countSilencePeriods s'"
  by (simp add: countSilencePeriods_def)

lemma calculateFinalStatistics_again:
  assumes "endTime s = Some ended"
  shows "calculateFinalStatistics v
           ((calculateFinalStatistics v s)\<lparr>isRecording := False, endTime := Some ended, isActive := False\<rparr>)
         = (calculateFinalStatistics v s)\<lparr>isRecording := False, isActive := False\<rparr>"
  using assms
  by (simp add: calculateFinalStatistics_def Let_def countSilencePeriods_def)


lemma stopSession_again:
  assumes "sessions m sid = Some s" "closeAudioContext env = None" "sttStopSession env = None"
  shows "stopSession (snd (stopSession m env sid now)) env sid now =
           (Inr (), snd (stopSession m env sid now))"
proof -
  let ?s0 = "s\<lparr>isRecording := False, endTime := Some now, isActive := False\<rparr>"
  let ?s1 = "calculateFinalStatistics (vad m) ?s0"
  let ?m1 = "m\<lparr>sessions := (sessions m)(sid \<mapsto> ?s1),
        mediaStream := False, activeAudioContext := False, silenceTimer := None\<rparr>"
  have first: "stopSession m env sid now = (Inr (), ?m1)"
    by (rule stopSession_succeeds [OF assms])
  have e: "endTime ?s0 = Some now" by simp
  have again: "calculateFinalStatistics (vad m)
           (?s1\<lparr>isRecording := False, endTime := Some now, isActive := False\<rparr>) = ?s1"
    by (simp add: calculateFinalStatistics_again [OF e] calculateFinalStatistics_fields(1,2) [OF e])
  have k: "sessions ?m1 sid = Some ?s1" by simp
  have second: "stopSession ?m1 env sid now = (Inr (), ?m1)"
    unfolding stopSession_succeeds [OF k assms(2,3)]
    by (simp add: again)
  show ?thesis unfolding first using second by simp
qed

text \<open>
  Claim C2, as the code has it. \<open>stopSession\<close> does not test \<open>isActive\<close>. On every
  known session, Active or not, with the audio context closing and the transcription
  service stopping without error, it returns no error and runs the whole stop: the
  session is left not Active and not recording, its end time is the time of this call,
  its total duration is that time minus the start time, and the speaking and silence
  durations are that total times the detector's ratios. A second stop at the same clock
  reading changes nothing; a second stop at a later time sets the end time and the total
  duration of that later time.
\<close>
theorem stopSession_not_guarded:
  "\<forall>s. sessions m sid = Some s \<and> closeAudioContext env = None \<and> sttStopSession env = None \<longrightarrow>
     fst (stopSession m env sid now) = Inr ()
     \<and> (\<exists>s'. sessions (snd (stopSession m env sid now)) sid = Some s'
           \<and> \<not> isActive s' \<and> \<not> isRecording s' \<and> endTime s' = Some now
           \<and> totalDuration (statistics s') = Fin (real_of_int (now - startTime s))
           \<and> speakingDuration (statistics s') =
               jmul (Fin (real_of_int (now - startTime s))) (speechRatio (getStatistics (vad m)))
           \<and> silenceDuration (statistics s') =
               jmul (Fin (real_of_int (now - startTime s))) (silenceRatio (getStatistics (vad m)))
           \<and> silencePeriods (statistics s') = countSilencePeriods s)
     \<and> stopSession (snd (stopSession m env sid now)) env sid now =
         (Inr (), snd (stopSession m env sid now))
     \<and> (\<forall>later. fst (stopSession (snd (stopSession m env sid now)) env sid later) = Inr ()
           \<and> (\<exists>s''. sessions (snd (stopSession (snd (stopSession m env sid now)) env sid later)) sid
                      = Some s''
                 \<and> endTime s'' = Some later
                 \<and> totalDuration (statistics s'') = Fin (real_of_int (later - startTime s))))"
proof (intro allI impI)
  fix s
  assume a: "sessions m sid = Some s \<and> closeAudioContext env = None \<and> sttStopSession env = None"
  then have k: "sessions m sid = Some s" and c: "closeAudioContext env = None"
    and t: "sttStopSession env = None" by simp_all
  let ?s0 = "s\<lparr>isRecording := False, endTime := Some now, isActive := False\<rparr>"
  let ?s1 = "calculateFinalStatistics (vad m) ?s0"
  let ?m1 = "m\<lparr>sessions := (sessions m)(sid \<mapsto> ?s1),
        mediaStream := False, activeAudioContext := False, silenceTimer := None\<rparr>"
  have first: "stopSession m env sid now = (Inr (), ?m1)"
    by (rule stopSession_succeeds [OF k c t])
  have e: "endTime ?s0 = Some now" by simp
  have p1: "fst (stopSession m env sid now) = Inr ()" by (simp add: first)
  have cs: "countSilencePeriods ?s0 = countSilencePeriods s"
    by (rule countSilencePeriods_cong) simp_all
  have p2: "\<exists>s'. sessions (snd (stopSession m env sid now)) sid = Some s'
           \<and> \<not> isActive s' \<and> \<not> isRecording s' \<and> endTime s' = Some now
           \<and> totalDuration (statistics s') = Fin (real_of_int (now - startTime s))
           \<and> speakingDuration (statistics s') =
               jmul (Fin (real_of_int (now - startTime s))) (speechRatio (getStatistics (vad m)))
           \<and> silenceDuration (statistics s') =
               jmul (Fin (real_of_int (now - startTime s))) (silenceRatio (getStatistics (vad m)))
           \<and> silencePeriods (statistics s') = countSilencePeriods s"
    unfolding first
    by (rule exI [of _ ?s1]) (simp add: calculateFinalStatistics_fields [OF e] cs)
  have p3: "stopSession (snd (stopSession m env sid now)) env sid now =
         (Inr (), snd (stopSession m env sid now))"
    by (rule stopSession_again [OF k c t])
  have p4: "fst (stopSession (snd (stopSession m env sid now)) env sid later) = Inr ()
           \<and> (\<exists>s''. sessions (snd (stopSession (snd (stopSession m env sid now)) env sid later)) sid
                      = Some s''
                 \<and> endTime s'' = Some later
                 \<and> totalDuration (statistics s'') = Fin (real_of_int (later - startTime s)))" for later
  proof -
    let ?s2 = "?s1\<lparr>isRecording := False, endTime := Some later, isActive := False\<rparr>"
    have k1: "sessions ?m1 sid = Some ?s1" by simp
    have e2: "endTime ?s2 = Some later" by simp
    have st: "startTime ?s2 = startTime s"
      by (simp add: calculateFinalStatistics_fields(4) [OF e])
    show ?thesis
      unfolding first snd_conv stopSession_succeeds [OF k1 c t]
      by (simp add: calculateFinalStatistics_fields(3,7) [OF e2] st)
  qed
  show "fst (stopSession m env sid now) = Inr ()
     \<and> (\<exists>s'. sessions (snd (stopSession m env sid now)) sid = Some s'
           \<and> \<not> isActive s' \<and> \<not> isRecording s' \<and> endTime s' = Some now
           \<and> totalDuration (statistics s') = Fin (real_of_int (now - startTime s))
           \<and> speakingDuration (statistics s') =
               jmul (Fin (real_of_int (now - startTime s))) (speechRatio (getStatistics (vad m)))
           \<and> silenceDuration (statistics s') =
               jmul (Fin (real_of_int (now - startTime s))) (silenceRatio (getStatistics (vad m)))
           \<and> silencePeriods (statistics s') = countSilencePeriods s)
     \<and> stopSession (snd (stopSession m env sid now)) env sid now =
         (Inr (), snd (stopSession m env sid now))
     \<and> (\<forall>later. fst (stopSession (snd (stopSession m env sid now)) env sid later) = Inr ()
           \<and> (\<exists>s''. sessions (snd (stopSession (snd (stopSession m env sid now)) env sid later)) sid
                      = Some s''
                 \<and> endTime s'' = Some later
                 \<and> totalDuration (statistics s'') = Fin (real_of_int (later - startTime s))))"
    using p1 p2 p3 p4 by blast
qed

text \<open>The example session, started at 0 and stopped at 1000.\<close>
theorem stopSession_not_guarded_witness:
  "fst (stopSession started_manager stop_succeeds ''audio_1'' 1000) = Inr ()
   \<and> map_option isActive (sessions stopped_manager ''audio_1'') = Some False
   \<and> map_option isRecording (sessions stopped_manager ''audio_1'') = Some False
   \<and> map_option endTime (sessions stopped_manager ''audio_1'') = Some (Some 1000)
   \<and> map_option (totalDuration \<circ> statistics) (sessions stopped_manager ''audio_1'') = Some (Fin 1000)
   \<and> stopSession stopped_manager stop_succeeds ''audio_1'' 1000 = (Inr (), stopped_manager)
   \<and> map_option (totalDuration \<circ> statistics) (sessions stopped_twice_manager ''audio_1'') = Some (Fin 2000)"
proof -
  let ?s = "created_session\<lparr>isActive := True, isRecording := True\<rparr>"
  have h: "sessions started_manager ''audio_1'' = Some ?s \<and> closeAudioContext stop_succeeds = None
      \<and> sttStopSession stop_succeeds = None"
    by (simp add: started_manager_session outcomes)
  note t = stopSession_not_guarded [of started_manager "''audio_1''" stop_succeeds 1000,
      rule_format, OF h]
  have st: "startTime ?s = 0" by (simp add: created_session_def)
  have p1: "fst (stopSession started_manager stop_succeeds ''audio_1'' 1000) = Inr ()"
    by (rule t [THEN conjunct1])
  from t [THEN conjunct2, THEN conjunct1]
  have p2: "map_option isActive (sessions stopped_manager ''audio_1'') = Some False
   \<and> map_option isRecording (sessions stopped_manager ''audio_1'') = Some False
   \<and> map_option endTime (sessions stopped_manager ''audio_1'') = Some (Some 1000)
   \<and> map_option (totalDuration \<circ> statistics) (sessions stopped_manager ''audio_1'') = Some (Fin 1000)"
    unfolding stopped_manager_def st by auto
  have p3: "stopSession stopped_manager stop_succeeds ''audio_1'' 1000 = (Inr (), stopped_manager)"
    unfolding stopped_manager_def by (rule t [THEN conjunct2, THEN conjunct2, THEN conjunct1])
  from t [THEN conjunct2, THEN conjunct2, THEN conjunct2, rule_format, of 2000]
  have p4: "map_option (totalDuration \<circ> statistics) (sessions stopped_twice_manager ''audio_1'') = Some (Fin 2000)"
    unfolding stopped_twice_manager_def stopped_manager_def st by auto
  show ?thesis using p1 p2 p3 p4 by (intro conjI) simp_all
qed

lemma stopped_manager_session:
  "sessions stopped_manager ''audio_1'' =
     Some (calculateFinalStatistics (vad started_manager)
             (created_session\<lparr>isActive := False, isRecording := False, endTime := Some 1000\<rparr>))"
  unfolding stopped_manager_def
    stopSession_succeeds [OF started_manager_session outcomes(6,7)]
  by (simp add: created_session_def)

lemma stopped_twice_manager_session:
  "sessions stopped_twice_manager ''audio_1'' =
     Some (calculateFinalStatistics (vad stopped_manager)
             ((calculateFinalStatistics (vad started_manager)
                (created_session\<lparr>isActive := False, isRecording := False, endTime := Some 1000\<rparr>))
              \<lparr>isRecording := False, endTime := Some 2000, isActive := False\<rparr>))"
  unfolding stopped_twice_manager_def
    stopSession_succeeds [OF stopped_manager_session outcomes(6,7)]
  by simp

text \<open>
  The stopped session is stopped again at 2000 without error: its end time and total
  duration move from 1000 to 2000.
\<close>
theorem stopSession_idempotent_counterexample:
  "map_option isActive (sessions stopped_manager ''audio_1'') = Some False
   \<and> fst (stopSession stopped_manager stop_succeeds ''audio_1'' 2000) = Inr ()
   \<and> map_option endTime (sessions stopped_manager ''audio_1'') = Some (Some 1000)
   \<and> map_option (totalDuration \<circ> statistics) (sessions stopped_manager ''audio_1'') = Some (Fin 1000)
   \<and> map_option endTime (sessions stopped_twice_manager ''audio_1'') = Some (Some 2000)
   \<and> map_option (totalDuration \<circ> statistics) (sessions stopped_twice_manager ''audio_1'') = Some (Fin 2000)
   \<and> stopped_twice_manager \<noteq> stopped_manager"
proof -
  have e1: "endTime (created_session\<lparr>isActive := False, isRecording := False, endTime := Some 1000\<rparr>) = Some 1000"
    by simp
  have st0: "startTime created_session = 0" by (simp add: created_session_def)
  have a: "map_option isActive (sessions stopped_manager ''audio_1'') = Some False"
     "map_option endTime (sessions stopped_manager ''audio_1'') = Some (Some 1000)"
     "map_option (totalDuration \<circ> statistics) (sessions stopped_manager ''audio_1'') = Some (Fin 1000)"
    by (simp_all add: stopped_manager_session calculateFinalStatistics_fields [OF e1] st0)
  have b: "fst (stopSession stopped_manager stop_succeeds ''audio_1'' 2000) = Inr ()"
    by (simp add: stopSession_succeeds [OF stopped_manager_session outcomes(6,7)])
  let ?s2 = "(calculateFinalStatistics (vad started_manager)
                (created_session\<lparr>isActive := False, isRecording := False, endTime := Some 1000\<rparr>))
              \<lparr>isRecording := False, endTime := Some 2000, isActive := False\<rparr>"
  have e2: "endTime ?s2 = Some 2000" by simp
  have c: "map_option endTime (sessions stopped_twice_manager ''audio_1'') = Some (Some 2000)"
     "map_option (totalDuration \<circ> statistics) (sessions stopped_twice_manager ''audio_1'') = Some (Fin 2000)"
    by (simp_all add: stopped_twice_manager_session calculateFinalStatistics_fields(3,7) [OF e2]
        calculateFinalStatistics_fields(4) [OF e1] st0)
  have d: "stopped_twice_manager \<noteq> stopped_manager"
    using a(2) c(1) by auto
  show ?thesis using a b c d by (intro conjI)
qed

text \<open>
  Claim C6, as the code has it. \<open>startSession\<close> refuses a session that is Active and
  changes nothing; on a session that is not Active it succeeds and sets \<open>isActive\<close>
  when the microphone and the transcription service start. Being stopped is not
  terminal: after \<open>stopSession\<close>, or after the silence timer has stopped the session,
  \<open>startSession\<close> on the same identifier makes the session Active again.
\<close>
theorem stopped_session_starts_again:
  "(\<forall>s. sessions m sid = Some s \<and> isActive s \<longrightarrow>
        startSession m env sid = (Inl (SessionAlreadyActive sid), m))
   \<and> (\<forall>s. sessions m sid = Some s \<and> \<not> isActive s \<and> getUserMedia env = None
          \<and> sttStartSession env = None \<longrightarrow>
        fst (startSession m env sid) = Inr ()
        \<and> map_option isActive (sessions (snd (startSession m env sid)) sid) = Some True)
   \<and> (\<forall>s. sessions m sid = Some s \<and> closeAudioContext senv = None \<and> sttStopSession senv = None
          \<and> getUserMedia env = None \<and> sttStartSession env = None \<longrightarrow>
        map_option isActive (sessions (snd (stopSession m senv sid now)) sid) = Some False
        \<and> fst (startSession (snd (stopSession m senv sid now)) env sid) = Inr ()
        \<and> map_option isActive
             (sessions (snd (startSession (snd (stopSession m senv sid now)) env sid)) sid) = Some True)
   \<and> (\<forall>s. sessions m sid = Some s \<and> isActive s \<and> autoStop (AudioSession.config s)
          \<and> closeAudioContext senv = None \<and> sttStopSession senv = None
          \<and> getUserMedia env = None \<and> sttStartSession env = None \<longrightarrow>
        map_option isActive (sessions (snd (silenceTimerFires m senv sid now)) sid) = Some False
        \<and> map_option isActive
             (sessions (snd (startSession (snd (silenceTimerFires m senv sid now)) env sid)) sid) = Some True)"
proof (intro conjI allI impI)
  fix s assume "sessions m sid = Some s \<and> isActive s"
  then show "startSession m env sid = (Inl (SessionAlreadyActive sid), m)"
    by (simp add: startSession_active)
next
  fix s assume a: "sessions m sid = Some s \<and> \<not> isActive s \<and> getUserMedia env = None
          \<and> sttStartSession env = None"
  then have k: "sessions m sid = Some s" and n: "\<not> isActive s" and g: "getUserMedia env = None"
    and t: "sttStartSession env = None" by simp_all
  show "fst (startSession m env sid) = Inr ()"
    by (rule startSession_succeeds(1) [OF k n g t])
  show "map_option isActive (sessions (snd (startSession m env sid)) sid) = Some True"
    by (simp add: startSession_succeeds(2) [OF k n g t])
next
  fix s assume a: "sessions m sid = Some s \<and> closeAudioContext senv = None \<and> sttStopSession senv = None
          \<and> getUserMedia env = None \<and> sttStartSession env = None"
  then have k: "sessions m sid = Some s" and c: "closeAudioContext senv = None"
    and st: "sttStopSession senv = None" and g: "getUserMedia env = None"
    and t: "sttStartSession env = None" by simp_all
  let ?s0 = "s\<lparr>isRecording := False, endTime := Some now, isActive := False\<rparr>"
  let ?s1 = "calculateFinalStatistics (vad m) ?s0"
  have e: "endTime ?s0 = Some now" by simp
  have k1: "sessions (snd (stopSession m senv sid now)) sid = Some ?s1"
    by (simp add: stopSession_succeeds [OF k c st])
  have n1: "\<not> isActive ?s1" by (simp add: calculateFinalStatistics_fields(1) [OF e])
  show "map_option isActive (sessions (snd (stopSession m senv sid now)) sid) = Some False"
    by (simp add: k1 n1)
  show "fst (startSession (snd (stopSession m senv sid now)) env sid) = Inr ()"
    by (rule startSession_succeeds(1) [OF k1 n1 g t])
  show "map_option isActive
             (sessions (snd (startSession (snd (stopSession m senv sid now)) env sid)) sid) = Some True"
    by (simp add: startSession_succeeds(2) [OF k1 n1 g t])
next
  fix s assume a: "sessions m sid = Some s \<and> isActive s \<and> autoStop (AudioSession.config s)
          \<and> closeAudioContext senv = None \<and> sttStopSession senv = None
          \<and> getUserMedia env = None \<and> sttStartSession env = None"
  then have k: "sessions m sid = Some s" and c: "closeAudioContext senv = None"
    and st: "sttStopSession senv = None" and g: "getUserMedia env = None"
    and t: "sttStartSession env = None" and act: "isActive s" "autoStop (AudioSession.config s)"
    by simp_all
  let ?s0 = "s\<lparr>isRecording := False, endTime := Some now, isActive := False\<rparr>"
  let ?s1 = "calculateFinalStatistics (vad m) ?s0"
  have e: "endTime ?s0 = Some now" by simp
  have f: "silenceTimerFires m senv sid now = stopSession m senv sid now"
    using k act by (simp add: silenceTimerFires_def)
  have k1: "sessions (snd (silenceTimerFires m senv sid now)) sid = Some ?s1"
    by (simp add: f stopSession_succeeds [OF k c st])
  have n1: "\<not> isActive ?s1" by (simp add: calculateFinalStatistics_fields(1) [OF e])
  show "map_option isActive (sessions (snd (silenceTimerFires m senv sid now)) sid) = Some False"
    by (simp add: k1 n1)
  show "map_option isActive
             (sessions (snd (startSession (snd (silenceTimerFires m senv sid now)) env sid)) sid) = Some True"
    by (simp add: startSession_succeeds(2) [OF k1 n1 g t])
qed

text \<open>The example session is stopped, by a call or by the timer, and started again.\<close>
theorem stopped_session_starts_again_witness:
  "map_option isActive (sessions stopped_manager ''audio_1'') = Some False
   \<and> fst (startSession stopped_manager all_succeed ''audio_1'') = Inr ()
   \<and> map_option isActive (sessions restarted_manager ''audio_1'') = Some True
   \<and> map_option isActive (sessions (snd (silenceTimerFires started_manager stop_succeeds ''audio_1'' 1000))
        ''audio_1'') = Some False
   \<and> startSession started_manager all_succeed ''audio_1'' =
       (Inl (SessionAlreadyActive ''audio_1''), started_manager)"
proof -
  let ?s = "created_session\<lparr>isActive := True, isRecording := True\<rparr>"
  have h: "sessions started_manager ''audio_1'' = Some ?s \<and> closeAudioContext stop_succeeds = None
      \<and> sttStopSession stop_succeeds = None \<and> getUserMedia all_succeed = None
      \<and> sttStartSession all_succeed = None"
    by (simp add: started_manager_session outcomes)
  note t = stopped_session_starts_again [of started_manager "''audio_1''" all_succeed stop_succeeds 1000,
      THEN conjunct2, THEN conjunct2, THEN conjunct1, rule_format, OF h]
  have h2: "sessions started_manager ''audio_1'' = Some ?s \<and> isActive ?s \<and> autoStop (AudioSession.config ?s)
      \<and> closeAudioContext stop_succeeds = None
      \<and> sttStopSession stop_succeeds = None \<and> getUserMedia all_succeed = None
      \<and> sttStartSession all_succeed = None"
    by (simp add: started_manager_session outcomes created_session_def example_session_facts)
  note u = stopped_session_starts_again [of started_manager "''audio_1''" all_succeed stop_succeeds 1000,
      THEN conjunct2, THEN conjunct2, THEN conjunct2, rule_format, OF h2]
  have h3: "sessions started_manager ''audio_1'' = Some ?s \<and> isActive ?s"
    by (simp add: started_manager_session)
  note v = stopped_session_starts_again [of started_manager "''audio_1''" all_succeed stop_succeeds 1000,
      THEN conjunct1, rule_format, OF h3]
  show ?thesis
    unfolding restarted_manager_def stopped_manager_def
    using t u [THEN conjunct1] v by (intro conjI) simp_all
qed

text \<open>
  Created, started, stopped, started: \<open>isActive\<close> is false, true, false and true again.
\<close>
theorem session_reactivated_counterexample:
  "map_option isActive (sessions created_manager ''audio_1'') = Some False
   \<and> map_option isActive (sessions started_manager ''audio_1'') = Some True
   \<and> map_option isActive (sessions stopped_manager ''audio_1'') = Some False
   \<and> fst (startSession stopped_manager all_succeed ''audio_1'') = Inr ()
   \<and> map_option isActive (sessions restarted_manager ''audio_1'') = Some True"
proof -
  have e1: "endTime (created_session\<lparr>isActive := False, isRecording := False, endTime := Some 1000\<rparr>) = Some 1000"
    by simp
  let ?s1 = "calculateFinalStatistics (vad started_manager)
             (created_session\<lparr>isActive := False, isRecording := False, endTime := Some 1000\<rparr>)"
  have n1: "\<not> isActive ?s1" by (simp add: calculateFinalStatistics_fields(1) [OF e1])
  have a: "map_option isActive (sessions created_manager ''audio_1'') = Some False"
    by (simp add: created_manager_session created_session_flags)
  have b: "map_option isActive (sessions started_manager ''audio_1'') = Some True"
    by (simp add: started_manager_session)
  have c: "map_option isActive (sessions stopped_manager ''audio_1'') = Some False"
    by (simp add: stopped_manager_session n1)
  have d: "fst (startSession stopped_manager all_succeed ''audio_1'') = Inr ()"
    by (rule startSession_succeeds(1) [OF stopped_manager_session n1 outcomes(1,2)])
  have e: "map_option isActive (sessions restarted_manager ''audio_1'') = Some True"
    unfolding restarted_manager_def
    by (simp add: startSession_succeeds(2) [OF stopped_manager_session n1 outcomes(1,2)])
  show ?thesis using a b c d e by (intro conjI)
qed

end
